theory Spec2Isabelle
  imports Complex_Main "HOL-Library.Char_ord" "HOL-Library.List_Lexorder"
    "HOL-Library.Product_Lexorder"
begin

section \<open>Python values and the operations the program applies to them\<close>

text \<open>
  The program of \<^verbatim>\<open>price_aggregator.py\<close> works on whatever the two HTTP endpoints
  return, decoded from JSON. A decoded value is \<^verbatim>\<open>None\<close>, a bool, an int, a float, a
  str, a list or a dict. A float is kept by the rational number it denotes (the JSON
  extensions NaN and Infinity are outside the model); a dict is kept as its items in
  insertion order, keys distinct as the decoder leaves them.
\<close>

datatype json =
    JNull
  | JBool bool
  | JInt int
  | JFloat rat
  | JStr string
  | JList "json list"
  | JDict "(string \<times> json) list"

text \<open>
  The exceptions the program can meet. \<open>RangeError\<close> stands for what the
  \<^verbatim>\<open>datetime\<close> library raises for an instant outside the years 1 to 9999 (ValueError,
  OverflowError or OSError, by magnitude and platform); the program catches none of them.
  A JSON decoder raises JSONDecodeError for a text that is not JSON, ValueError for an
  integer literal of more than 4300 digits, and RecursionError for a text nested too
  deep.
\<close>

datatype exn =
    JSONDecodeError
  | IndexError
  | ValueError
  | TypeError
  | KeyError
  | AttributeError
  | RangeError
  | RecursionError

text \<open>Truth value of a Python object, as \<^verbatim>\<open>if not x\<close> tests it.\<close>

fun truthy :: "json \<Rightarrow> bool" where
  "truthy JNull = False"
| "truthy (JBool b) = b"
| "truthy (JInt i) = (i \<noteq> 0)"
| "truthy (JFloat r) = (r \<noteq> 0)"
| "truthy (JStr s) = (s \<noteq> [])"
| "truthy (JList xs) = (xs \<noteq> [])"
| "truthy (JDict kvs) = (kvs \<noteq> [])"

text \<open>\<^verbatim>\<open>x.get(key, default)\<close>: only a dict has the method.\<close>

fun dict_get :: "json \<Rightarrow> string \<Rightarrow> json \<Rightarrow> exn + json" where
  "dict_get (JDict kvs) key dflt = Inr (case map_of kvs key of None \<Rightarrow> dflt | Some v \<Rightarrow> v)"
| "dict_get _ key dflt = Inl AttributeError"

text \<open>\<^verbatim>\<open>x["key"]\<close> with a string key.\<close>

fun getitem_key :: "json \<Rightarrow> string \<Rightarrow> exn + json" where
  "getitem_key (JDict kvs) key = (case map_of kvs key of None \<Rightarrow> Inl KeyError | Some v \<Rightarrow> Inr v)"
| "getitem_key _ key = Inl TypeError"

text \<open>
  \<^verbatim>\<open>x[0]\<close>: the first element of a list, the first character of a str; a dict decoded
  from JSON has string keys only, so the key 0 is never there.
\<close>

fun getitem0 :: "json \<Rightarrow> exn + json" where
  "getitem0 (JList []) = Inl IndexError"
| "getitem0 (JList (x # xs)) = Inr x"
| "getitem0 (JStr []) = Inl IndexError"
| "getitem0 (JStr (c # cs)) = Inr (JStr [c])"
| "getitem0 (JDict kvs) = Inl KeyError"
| "getitem0 _ = Inl TypeError"

text \<open>
  \<^verbatim>\<open>int(x)\<close>. What the builtin makes of a str is left to the parameter \<open>str_int\<close>
  (\<open>None\<close>: ValueError); a float is truncated towards zero.
\<close>

fun py_int :: "(string \<Rightarrow> int option) \<Rightarrow> json \<Rightarrow> exn + int" where
  "py_int str_int (JInt i) = Inr i"
| "py_int str_int (JBool b) = Inr (if b then 1 else 0)"
| "py_int str_int (JFloat r) = Inr (if 0 \<le> r then \<lfloor>r\<rfloor> else \<lceil>r\<rceil>)"
| "py_int str_int (JStr s) = (case str_int s of None \<Rightarrow> Inl ValueError | Some i \<Rightarrow> Inr i)"
| "py_int str_int _ = Inl TypeError"

text \<open>
  The items a \<^verbatim>\<open>for\<close> loop draws from a value: the elements of a list, the characters of
  a str, the keys of a dict; anything else is not iterable.
\<close>

fun py_iter :: "json \<Rightarrow> exn + json list" where
  "py_iter (JList xs) = Inr xs"
| "py_iter (JStr s) = Inr (map (\<lambda>c. JStr [c]) s)"
| "py_iter (JDict kvs) = Inr (map (\<lambda>kv. JStr (fst kv)) kvs)"
| "py_iter _ = Inl TypeError"

text \<open>
  Dictionary keys. Python compares keys by value, so \<^verbatim>\<open>True\<close>, \<^verbatim>\<open>1\<close> and \<^verbatim>\<open>1.0\<close> are
  one key; a list or a dict is unhashable.
\<close>

datatype hkey = KNone | KNum rat | KStr string

fun hash_key :: "json \<Rightarrow> exn + hkey" where
  "hash_key JNull = Inr KNone"
| "hash_key (JBool b) = Inr (KNum (if b then 1 else 0))"
| "hash_key (JInt i) = Inr (KNum (of_int i))"
| "hash_key (JFloat r) = Inr (KNum r)"
| "hash_key (JStr s) = Inr (KStr s)"
| "hash_key _ = Inl TypeError"

text \<open>\<^verbatim>\<open>d[k] = v\<close> on a dict kept as its items: an existing key keeps its place.\<close>

fun dict_set :: "'k \<Rightarrow> 'v \<Rightarrow> ('k \<times> 'v) list \<Rightarrow> ('k \<times> 'v) list" where
  "dict_set k v [] = [(k, v)]"
| "dict_set k v (kv # kvs) = (if fst kv = k then (k, v) # kvs else kv # dict_set k v kvs)"

section \<open>Decimal digits\<close>

definition digit :: "nat \<Rightarrow> char" where
  "digit n = ''0123456789'' ! (n mod 10)"

fun string_of_nat :: "nat \<Rightarrow> string" where
  "string_of_nat n = (if n < 10 then [digit n] else string_of_nat (n div 10) @ [digit n])"

definition pad2 :: "nat \<Rightarrow> string" where
  "pad2 n = [digit (n div 10), digit n]"

section \<open>The timestamp normalizer\<close>

text \<open>
  \<^verbatim>\<open>datetime.fromtimestamp(t, tz=timezone.utc)\<close> takes an int (a bool is one) or a float,
  which it rounds to microseconds, half to even; the fraction of a second is then
  dropped by the format.
\<close>

definition round_half_even :: "rat \<Rightarrow> int" where
  "round_half_even x =
     (let f = \<lfloor>x\<rfloor>; d = x - of_int f
      in if d < 1 / 2 then f else if 1 / 2 < d then f + 1 else if even f then f else f + 1)"

fun timestamp_seconds :: "json \<Rightarrow> exn + int" where
  "timestamp_seconds (JInt i) = Inr i"
| "timestamp_seconds (JBool b) = Inr (if b then 1 else 0)"
| "timestamp_seconds (JFloat r) = Inr (round_half_even (r * 1000000) div 1000000)"
| "timestamp_seconds _ = Inl TypeError"

text \<open>
  The proleptic Gregorian calendar of \<^verbatim>\<open>datetime\<close>, after the library's
  \<^verbatim>\<open>_ord2ymd\<close>: \<open>n\<close> counts days from 0001-01-01 (day 0). The day of the year is
  turned into month and day by walking the month lengths. \<open>days_before_year\<close> is
  the library's count of the days before January 1st of a year.
\<close>

definition days_before_year :: "int \<Rightarrow> int" where
  "days_before_year year = (let y = year - 1 in y * 365 + y div 4 - y div 100 + y div 400)"

definition is_leap :: "int \<Rightarrow> bool" where
  "is_leap y = (y mod 4 = 0 \<and> (y mod 100 \<noteq> 0 \<or> y mod 400 = 0))"

definition month_lengths :: "bool \<Rightarrow> int list" where
  "month_lengths leap = [31, if leap then 29 else 28, 31, 30, 31, 30, 31, 31, 30, 31, 30, 31]"

fun month_day :: "int list \<Rightarrow> int \<Rightarrow> int \<Rightarrow> int \<times> int" where
  "month_day [] m n = (m, n + 1)"
| "month_day (l # ls) m n = (if n < l then (m, n + 1) else month_day ls (m + 1) (n - l))"

definition ord2ymd :: "int \<Rightarrow> int \<times> int \<times> int" where
  "ord2ymd n =
     (let n400 = n div 146097; r400 = n mod 146097;
          n100 = r400 div 36524; r100 = r400 mod 36524;
          n4 = r100 div 1461; r4 = r100 mod 1461;
          n1 = r4 div 365; r1 = r4 mod 365;
          year = n400 * 400 + 1 + n100 * 100 + n4 * 4 + n1
      in if n1 = 4 \<or> n100 = 4 then (year - 1, 12, 31)
         else (year, month_day (month_lengths (is_leap year)) 1 r1))"

text \<open>
  \<^verbatim>\<open>strftime('%Y-%m-%d %H:%M:%S')\<close> of the civil time \<open>secs\<close> seconds after
  0001-01-01 00:00:00. The library hands the format to the C library, whose \<^verbatim>\<open>%Y\<close>
  (glibc) writes the year in decimal without padding: the year 999 has three digits.
  Month, day, hour, minute and second have two digits each.
\<close>

definition format_date :: "int \<times> int \<times> int \<Rightarrow> string" where
  "format_date ymd =
     (case ymd of (y, m, d) \<Rightarrow>
        string_of_nat (nat y) @ ''-'' @ pad2 (nat m) @ ''-'' @ pad2 (nat d))"

definition format_time :: "int \<Rightarrow> string" where
  "format_time s =
     pad2 (nat (s div 3600)) @ '':'' @ pad2 (nat (s mod 3600 div 60)) @ '':'' @
     pad2 (nat (s mod 60))"

definition strftime :: "int \<Rightarrow> string" where
  "strftime secs =
     format_date (ord2ymd (secs div 86400)) @ '' '' @ format_time (secs mod 86400)"

text \<open>
  Seconds from 0001-01-01 00:00:00 to the Unix epoch, and the last second of the year
  9999 on that scale.
\<close>

definition EPOCH :: int where
  "EPOCH = 62135596800"

definition MAX_SECONDS :: int where
  "MAX_SECONDS = 315537897599"

text \<open>
  \<^verbatim>\<open>convert_to_eastern\<close>. The zone \<^verbatim>\<open>EASTERN_TZ = pytz.timezone("US/Eastern")\<close> is a
  table of the time zone database that the source does not hold; it is the parameter
  \<open>utcoffset\<close>, the seconds the zone adds to a UTC instant (\<^verbatim>\<open>astimezone\<close> adds them
  to the UTC date and time). \<open>normalize\<close> is the function on Unix seconds.
\<close>

definition normalize :: "(int \<Rightarrow> int) \<Rightarrow> int \<Rightarrow> exn + string" where
  "normalize utcoffset t =
     (let utc = t + EPOCH
      in if utc < 0 \<or> MAX_SECONDS < utc then Inl RangeError
         else let est = utc + utcoffset t
              in if est < 0 \<or> MAX_SECONDS < est then Inl RangeError
                 else Inr (strftime est @ '' ET''))"

definition convert_to_eastern :: "(int \<Rightarrow> int) \<Rightarrow> json \<Rightarrow> exn + string" where
  "convert_to_eastern utcoffset utc_timestamp =
     (case timestamp_seconds utc_timestamp of
        Inl e \<Rightarrow> Inl e
      | Inr t \<Rightarrow> normalize utcoffset t)"

text \<open>
  The rows of the US/Eastern table around the year 2023: daylight time (UTC-4) from
  2023-03-12 07:00:00 UTC until 2023-11-05 06:00:00 UTC, standard time (UTC-5) before
  and after. It agrees with the zone from 2022-11-06 06:00:00 UTC until
  2024-03-10 07:00:00 UTC.
\<close>

definition eastern_2023 :: "int \<Rightarrow> int" where
  "eastern_2023 t = (if 1678604400 \<le> t \<and> t < 1699164000 then - 14400 else - 18000)"


section \<open>The outside world\<close>

text \<open>
  What the program reads from outside its own source: the answer of the HTTP service to
  a GET request, \<^verbatim>\<open>json.loads\<close> (the decoded value, or the exception the decoder
  raises), \<^verbatim>\<open>int\<close> on a str (\<open>None\<close>: ValueError) and the zone table. A response is
  either no response at all (\<^verbatim>\<open>requests.get\<close> raises a RequestException) or a status
  code with what \<^verbatim>\<open>response.json()\<close> makes of the body: the decoded value, or the
  exception the decoder raises on it. For a body that is not JSON that is
  JSONDecodeError, which \<^verbatim>\<open>json()\<close> raises as the library's own JSONDecodeError, a
  RequestException; the decoder's other exceptions leave \<^verbatim>\<open>json()\<close> as they are.
\<close>

datatype request = Request string "(string \<times> json) list"

datatype response = NoResponse | Response nat "exn + json"

record world =
  http_get :: "request \<Rightarrow> response"
  json_loads :: "string \<Rightarrow> exn + json"
  str_int :: "string \<Rightarrow> int option"
  utcoffset :: "int \<Rightarrow> int"

definition API_URL :: string where
  "API_URL = ''https://gamma-api.polymarket.com/events?slug=will-trump-remove-jerome-powell''"

definition BASE_URL :: string where
  "BASE_URL = ''https://clob.polymarket.com''"

definition FIDELITY :: int where
  "FIDELITY = 10"

definition INTERVAL :: string where
  "INTERVAL = ''1m''"

text \<open>\<^verbatim>\<open>response.raise_for_status()\<close> raises HTTPError for a 4xx or 5xx status.\<close>

definition raise_for_status :: "nat \<Rightarrow> bool" where
  "raise_for_status status = (400 \<le> status \<and> status < 600)"

section \<open>The fetch operations\<close>

text \<open>
  The handler of both fetch operations is \<^verbatim>\<open>except RequestException\<close>: of what
  \<^verbatim>\<open>response.json()\<close> raises, it catches the JSONDecodeError and nothing else.
\<close>

definition request_exception :: "exn \<Rightarrow> bool" where
  "request_exception e = (e = JSONDecodeError)"

definition fetch_event_data :: "world \<Rightarrow> string \<Rightarrow> exn + json" where
  "fetch_event_data w url =
     (case http_get w (Request url []) of
        NoResponse \<Rightarrow> Inr JNull
      | Response status body \<Rightarrow>
          if raise_for_status status then Inr JNull
          else (case body of
                  Inl e \<Rightarrow> if request_exception e then Inr JNull else Inl e
                | Inr v \<Rightarrow> Inr v))"

definition history_request :: "int \<Rightarrow> request" where
  "history_request token_id =
     Request (BASE_URL @ ''/prices-history'')
       [(''market'', JInt token_id), (''interval'', JStr INTERVAL), (''fidelity'', JInt FIDELITY)]"

definition fetch_historical_prices :: "world \<Rightarrow> int \<Rightarrow> exn + json" where
  "fetch_historical_prices w token_id =
     (case http_get w (history_request token_id) of
        NoResponse \<Rightarrow> Inr (JList [])
      | Response status body \<Rightarrow>
          if raise_for_status status then Inr (JList [])
          else (case body of
                  Inl e \<Rightarrow> if request_exception e then Inr (JList []) else Inl e
                | Inr v \<Rightarrow> dict_get v ''history'' (JList [])))"

section \<open>Processing one market\<close>

text \<open>
  The body of the \<^verbatim>\<open>try\<close> block up to the token: \<^verbatim>\<open>json.loads\<close> wants a str,
  then element 0, then \<^verbatim>\<open>int\<close>.
\<close>

definition first_token :: "world \<Rightarrow> json \<Rightarrow> exn + int" where
  "first_token w token_id_str =
     (case token_id_str of
        JStr s \<Rightarrow>
          (case json_loads w s of
             Inl e \<Rightarrow> Inl e
           | Inr token_ids \<Rightarrow>
               (case getitem0 token_ids of
                  Inl e \<Rightarrow> Inl e
                | Inr x \<Rightarrow> py_int (str_int w) x))
      | _ \<Rightarrow> Inl TypeError)"

definition caught :: "exn \<Rightarrow> bool" where
  "caught e = (e = JSONDecodeError \<or> e = IndexError \<or> e = ValueError)"

text \<open>
  \<^verbatim>\<open>process_market\<close> returns the question and the price history (\<^verbatim>\<open>None\<close> from the
  handler), here together with the requests it sent. The fetch is inside the
  \<^verbatim>\<open>try\<close> block, so the handler covers it too.
\<close>

definition market_question :: "json \<Rightarrow> nat \<Rightarrow> exn + json" where
  "market_question market index =
     dict_get market ''question'' (JStr (''Market '' @ string_of_nat (index + 1)))"

definition process_market :: "world \<Rightarrow> json \<Rightarrow> nat \<Rightarrow> exn + (json \<times> json \<times> request list)" where
  "process_market w market index =
     (case dict_get market ''clobTokenIds'' (JStr ''N/A'') of
        Inl e \<Rightarrow> Inl e
      | Inr token_id_str \<Rightarrow>
          (case market_question market index of
             Inl e \<Rightarrow> Inl e
           | Inr question \<Rightarrow>
               (case first_token w token_id_str of
                  Inl e \<Rightarrow> if caught e then Inr (question, JNull, []) else Inl e
                | Inr first_token_id \<Rightarrow>
                    (case fetch_historical_prices w first_token_id of
                       Inl e \<Rightarrow> if caught e then Inr (question, JNull, [history_request first_token_id])
                                else Inl e
                     | Inr history \<Rightarrow> Inr (question, history, [history_request first_token_id])))))"

section \<open>The aggregator\<close>

text \<open>
  \<^verbatim>\<open>combined_data\<close> is a \<^verbatim>\<open>defaultdict(dict)\<close>: from the timestamp string to a dict from
  the question to the price. Reading a missing timestamp gives the empty dict.
\<close>

type_synonym table = "(string \<times> (hkey \<times> json) list) list"

definition table_row :: "table \<Rightarrow> string \<Rightarrow> (hkey \<times> json) list" where
  "table_row all_data ts = (case map_of all_data ts of None \<Rightarrow> [] | Some r \<Rightarrow> r)"

definition set_cell :: "string \<Rightarrow> hkey \<Rightarrow> json \<Rightarrow> table \<Rightarrow> table" where
  "set_cell ts k price all_data = dict_set ts (dict_set k price (table_row all_data ts)) all_data"

definition cell :: "table \<Rightarrow> string \<Rightarrow> hkey \<Rightarrow> json option" where
  "cell all_data ts k = map_of (table_row all_data ts) k"

text \<open>
  The body of the inner loop of \<^verbatim>\<open>main\<close>, for one data point: the key
  \<^verbatim>\<open>convert_to_eastern(data_point["t"])\<close> first, then the price, then the store.
\<close>

definition point_key :: "world \<Rightarrow> json \<Rightarrow> exn + string" where
  "point_key w data_point =
     (case getitem_key data_point ''t'' of
        Inl e \<Rightarrow> Inl e
      | Inr t \<Rightarrow> convert_to_eastern (utcoffset w) t)"

definition add_point :: "world \<Rightarrow> json \<Rightarrow> json \<Rightarrow> table \<Rightarrow> exn + table" where
  "add_point w question data_point combined_data =
     (case point_key w data_point of
        Inl e \<Rightarrow> Inl e
      | Inr timestamp_str \<Rightarrow>
          (case getitem_key data_point ''p'' of
             Inl e \<Rightarrow> Inl e
           | Inr price \<Rightarrow>
               (case hash_key question of
                  Inl e \<Rightarrow> Inl e
                | Inr k \<Rightarrow> Inr (set_cell timestamp_str k price combined_data))))"

fun add_points :: "world \<Rightarrow> json \<Rightarrow> json list \<Rightarrow> table \<Rightarrow> exn + table" where
  "add_points w question [] combined_data = Inr combined_data"
| "add_points w question (data_point # rest) combined_data =
     (case add_point w question data_point combined_data of
        Inl e \<Rightarrow> Inl e
      | Inr combined_data' \<Rightarrow> add_points w question rest combined_data')"

text \<open>
  The loop over \<^verbatim>\<open>enumerate(markets)\<close>: the state is \<^verbatim>\<open>combined_data\<close> and
  \<^verbatim>\<open>market_questions\<close>.
\<close>

fun market_loop :: "world \<Rightarrow> json list \<Rightarrow> nat \<Rightarrow> table \<times> json list \<Rightarrow> exn + (table \<times> json list)" where
  "market_loop w [] idx st = Inr st"
| "market_loop w (market # rest) idx (combined_data, market_questions) =
     (case process_market w market idx of
        Inl e \<Rightarrow> Inl e
      | Inr (question, price_history, sent) \<Rightarrow>
          if \<not> truthy price_history
          then market_loop w rest (Suc idx) (combined_data, market_questions @ [question])
          else (case py_iter price_history of
                  Inl e \<Rightarrow> Inl e
                | Inr points \<Rightarrow>
                    (case add_points w question points combined_data of
                       Inl e \<Rightarrow> Inl e
                     | Inr combined_data' \<Rightarrow>
                         market_loop w rest (Suc idx) (combined_data', market_questions @ [question]))))"

section \<open>The CSV exporter\<close>

text \<open>
  A row is the list of values handed to \<^verbatim>\<open>writer.writerow\<close>. The exporter returns the
  rows it wrote and the exception that stopped it, if any: the file is open by then, so
  the rows written before stay in it.
\<close>

type_synonym row = "json list"

fun cells :: "(hkey \<times> json) list \<Rightarrow> json list \<Rightarrow> exn + row" where
  "cells r [] = Inr []"
| "cells r (question # questions) =
     (case hash_key question of
        Inl e \<Rightarrow> Inl e
      | Inr k \<Rightarrow>
          (case cells r questions of
             Inl e \<Rightarrow> Inl e
           | Inr cs \<Rightarrow> Inr ((case map_of r k of None \<Rightarrow> JStr [] | Some price \<Rightarrow> price) # cs)))"

fun write_rows :: "table \<Rightarrow> json list \<Rightarrow> string list \<Rightarrow> row list \<Rightarrow> exn option \<times> row list" where
  "write_rows all_data questions [] written = (None, written)"
| "write_rows all_data questions (timestamp # rest) written =
     (case cells (table_row all_data timestamp) questions of
        Inl e \<Rightarrow> (Some e, written)
      | Inr cs \<Rightarrow> write_rows all_data questions rest (written @ [JStr timestamp # cs]))"

definition export_combined_csv :: "table \<Rightarrow> json list \<Rightarrow> exn option \<times> row list" where
  "export_combined_csv all_data questions =
     (let sorted_timestamps = sort (map fst all_data)
      in write_rows all_data questions sorted_timestamps [JStr ''Timestamp (ET)'' # questions])"

section \<open>The pipeline driver\<close>

text \<open>
  How a run ends: with one of the three messages and no file, with the file exported, or
  with an exception nobody catches (and the rows written to the file before it, if the
  file was open).
\<close>

datatype run =
    NoEventData
  | NoMarkets
  | NoData
  | Exported "row list"
  | Raised exn "row list option"

fun output_file :: "run \<Rightarrow> row list option" where
  "output_file (Exported rows) = Some rows"
| "output_file (Raised e file) = file"
| "output_file _ = None"

fun raised :: "run \<Rightarrow> exn option" where
  "raised (Raised e file) = Some e"
| "raised _ = None"

text \<open>
  The first part of \<^verbatim>\<open>main\<close>, up to the loop: the run ends here with a message, or
  the loop gets the items of \<^verbatim>\<open>markets\<close>.
\<close>

definition primary_event :: "json \<Rightarrow> exn + json" where
  "primary_event event_data =
     (case event_data of JList xs \<Rightarrow> getitem0 (JList xs) | _ \<Rightarrow> Inr event_data)"

definition find_markets :: "world \<Rightarrow> run + json list" where
  "find_markets w =
     (case fetch_event_data w API_URL of
        Inl e \<Rightarrow> Inl (Raised e None)
      | Inr event_data \<Rightarrow>
          if \<not> truthy event_data then Inl NoEventData
          else (case primary_event event_data of
                  Inl e \<Rightarrow> Inl (Raised e None)
                | Inr event \<Rightarrow>
                    (case dict_get event ''markets'' (JList []) of
                       Inl e \<Rightarrow> Inl (Raised e None)
                     | Inr markets \<Rightarrow>
                         if \<not> truthy markets then Inl NoMarkets
                         else (case py_iter markets of
                                 Inl e \<Rightarrow> Inl (Raised e None)
                               | Inr ms \<Rightarrow> Inr ms))))"

text \<open>The loop and the export at the end of \<^verbatim>\<open>main\<close>.\<close>

definition aggregate :: "world \<Rightarrow> json list \<Rightarrow> run" where
  "aggregate w ms =
     (case market_loop w ms 0 ([], []) of
        Inl e \<Rightarrow> Raised e None
      | Inr (combined_data, market_questions) \<Rightarrow>
          if combined_data \<noteq> []
          then (case export_combined_csv combined_data market_questions of
                  (None, rows) \<Rightarrow> Exported rows
                | (Some e, rows) \<Rightarrow> Raised e (Some rows))
          else NoData)"

definition main :: "world \<Rightarrow> run" where
  "main w = (case find_markets w of Inl r \<Rightarrow> r | Inr ms \<Rightarrow> aggregate w ms)"

section \<open>Notions the properties are stated with\<close>


text \<open>
  At most one price per cell: the table has each timestamp once, and each of its rows
  has each question once.
\<close>

definition one_price_per_cell :: "table \<Rightarrow> bool" where
  "one_price_per_cell all_data =
     (distinct (map fst all_data) \<and> list_all (\<lambda>tr. distinct (map fst (snd tr))) all_data)"

text \<open>
  The price of the last point of a series whose key is \<open>ts\<close>, if the series has such a
  point.
\<close>

fun last_price :: "world \<Rightarrow> json list \<Rightarrow> string \<Rightarrow> json option" where
  "last_price w [] ts = None"
| "last_price w (data_point # rest) ts =
     (case last_price w rest ts of
        Some price \<Rightarrow> Some price
      | None \<Rightarrow>
          if point_key w data_point = Inr ts
          then (case getitem_key data_point ''p'' of Inl e \<Rightarrow> None | Inr price \<Rightarrow> Some price)
          else None)"

text \<open>
  The price that one market stores under the question key \<open>k\<close> at the timestamp
  \<open>ts\<close>: the last price of its series at \<open>ts\<close>, when the market has a price history
  and its question has the key \<open>k\<close>.
\<close>

definition market_price :: "world \<Rightarrow> json \<Rightarrow> nat \<Rightarrow> hkey \<Rightarrow> string \<Rightarrow> json option" where
  "market_price w market idx k ts =
     (case process_market w market idx of
        Inl e \<Rightarrow> None
      | Inr (question, price_history, sent) \<Rightarrow>
          if truthy price_history \<and> hash_key question = Inr k
          then (case py_iter price_history of
                  Inl e \<Rightarrow> None
                | Inr points \<Rightarrow> last_price w points ts)
          else None)"

text \<open>
  The series of the markets \<open>idx\<close>, \<open>idx + 1\<close>, ... merged under the question key
  \<open>k\<close>: at each timestamp the later market decides.
\<close>

fun merged_price :: "world \<Rightarrow> json list \<Rightarrow> nat \<Rightarrow> hkey \<Rightarrow> string \<Rightarrow> json option" where
  "merged_price w [] idx k ts = None"
| "merged_price w (market # rest) idx k ts =
     (case merged_price w rest (Suc idx) k ts of
        Some price \<Rightarrow> Some price
      | None \<Rightarrow> market_price w market idx k ts)"


section \<open>Example inputs\<close>

text \<open>
  A world for concrete runs: the answer to the event request and the answers to the
  price-history requests by token are given; \<^verbatim>\<open>json.loads\<close> and \<^verbatim>\<open>int\<close> are
  tabulated on the strings the examples use (every other string counts as malformed),
  and the zone table is the one of 2023.
\<close>

definition quoted :: "string \<Rightarrow> string" where
  "quoted s = CHR 0x22 # s @ [CHR 0x22]"

definition token_array :: "string \<Rightarrow> string" where
  "token_array s = ''['' @ quoted s @ '']''"

definition example_loads :: "string \<Rightarrow> exn + json" where
  "example_loads s =
     (if s = token_array ''111'' then Inr (JList [JStr ''111''])
      else if s = token_array ''222'' then Inr (JList [JStr ''222''])
      else if s = ''[]'' then Inr (JList [])
      else if s = ''{}'' then Inr (JDict [])
      else if s = ''[null]'' then Inr (JList [JNull])
      else Inl JSONDecodeError)"

definition example_str_int :: "string \<Rightarrow> int option" where
  "example_str_int s =
     (if s = ''111'' then Some 111 else if s = ''222'' then Some 222 else None)"

definition example_http :: "response \<Rightarrow> (int \<Rightarrow> response) \<Rightarrow> request \<Rightarrow> response" where
  "example_http event history req =
     (case req of
        Request url params \<Rightarrow>
          if url = API_URL then event
          else (case map_of params ''market'' of
                  Some (JInt token_id) \<Rightarrow> history token_id
                | _ \<Rightarrow> NoResponse))"

definition example_world :: "response \<Rightarrow> (int \<Rightarrow> response) \<Rightarrow> world" where
  "example_world event history =
     \<lparr>http_get = example_http event history, json_loads = example_loads,
      str_int = example_str_int, utcoffset = eastern_2023\<rparr>"

definition ok_response :: "json \<Rightarrow> response" where
  "ok_response body = Response 200 (Inr body)"

definition example_market :: "string \<Rightarrow> string \<Rightarrow> json" where
  "example_market question token_ids =
     JDict [(''question'', JStr question), (''clobTokenIds'', JStr token_ids)]"

definition example_event :: "json list \<Rightarrow> json" where
  "example_event markets = JDict [(''markets'', JList markets)]"

definition price_point :: "int \<Rightarrow> rat \<Rightarrow> json" where
  "price_point t p = JDict [(''t'', JInt t), (''p'', JFloat p)]"

definition history_body :: "json list \<Rightarrow> json" where
  "history_body points = JDict [(''history'', JList points)]"

text \<open>
  The event of the end-to-end example: market Q1 with token 111 and one price point,
  market Q2 with token 222 and no history.
\<close>

definition two_markets :: json where
  "two_markets =
     example_event [example_market ''Q1'' (token_array ''111''),
                    example_market ''Q2'' (token_array ''222'')]"

definition two_histories :: "int \<Rightarrow> response" where
  "two_histories token_id =
     (if token_id = 111 then ok_response (history_body [price_point 1700000000 (1 / 2)])
      else ok_response (history_body []))"

text \<open>An event whose first market has a malformed token list.\<close>

definition bad_then_good :: json where
  "bad_then_good =
     example_event [example_market ''Bad'' ''not-json'',
                    example_market ''Q1'' (token_array ''111'')]"

text \<open>An event with no markets.\<close>

definition no_markets_event :: json where
  "no_markets_event = JDict [(''title'', JStr ''An event''), (''markets'', JList [])]"

text \<open>An event whose only market has no price history.\<close>

definition no_data_event :: json where
  "no_data_event = example_event [example_market ''Q2'' (token_array ''222'')]"


text \<open>An event whose only market has a price point without a price.\<close>

definition no_price_event :: json where
  "no_price_event = example_event [example_market ''Q1'' (token_array ''111'')]"

definition no_price_history :: "int \<Rightarrow> response" where
  "no_price_history token_id = ok_response (history_body [JDict [(''t'', JInt 1700000000)]])"

text \<open>Two markets with the same question, and their price histories.\<close>

definition same_question_event :: json where
  "same_question_event =
     example_event [example_market ''Q'' (token_array ''111''),
                    example_market ''Q'' (token_array ''222'')]"

definition same_question_histories :: "int \<Rightarrow> response" where
  "same_question_histories token_id =
     (if token_id = 111
      then ok_response (history_body [price_point 1700000000 (1 / 2), price_point 1700000060 (1 / 4)])
      else ok_response (history_body [price_point 1700000000 (3 / 4)]))"

section \<open>Facts about the model\<close>

lemmas example_defs =
  example_world_def example_http_def example_loads_def example_str_int_def ok_response_def
  example_market_def example_event_def price_point_def history_body_def two_markets_def
  two_histories_def bad_then_good_def no_markets_event_def no_data_event_def quoted_def
  no_price_event_def no_price_history_def same_question_event_def same_question_histories_def
  token_array_def API_URL_def BASE_URL_def FIDELITY_def
  INTERVAL_def history_request_def raise_for_status_def request_exception_def

lemmas time_defs =
  normalize_def convert_to_eastern_def eastern_2023_def EPOCH_def MAX_SECONDS_def
  strftime_def format_date_def format_time_def ord2ymd_def is_leap_def month_lengths_def
  pad2_def digit_def

lemmas run_defs =
  main_def find_markets_def aggregate_def fetch_event_data_def fetch_historical_prices_def
  primary_event_def process_market_def market_question_def first_token_def caught_def
  add_point_def point_key_def set_cell_def table_row_def cell_def export_combined_csv_def

lemma normalize_1700000000:
  "normalize eastern_2023 1700000000 = Inr ''2023-11-14 17:13:20 ET''"
  by (simp add: time_defs)

lemma main_two_markets:
  "main (example_world (ok_response two_markets) two_histories) =
     Exported [[JStr ''Timestamp (ET)'', JStr ''Q1'', JStr ''Q2''],
               [JStr ''2023-11-14 17:13:20 ET'', JFloat (1 / 2), JStr []]]"
  by (simp add: run_defs example_defs time_defs)

section \<open>The fetch operations fail with a value\<close>

lemma market_loop_skip:
  "process_market w m idx = Inr (q, h, sent) \<Longrightarrow> \<not> truthy h \<Longrightarrow>
   market_loop w (m # rest) idx (tbl, qs) = market_loop w rest (Suc idx) (tbl, qs @ [q])"
  by simp

lemma market_loop_add:
  "process_market w m idx = Inr (q, h, sent) \<Longrightarrow> truthy h \<Longrightarrow> py_iter h = Inr pts \<Longrightarrow>
   add_points w q pts tbl = Inr tbl' \<Longrightarrow>
   market_loop w (m # rest) idx (tbl, qs) = market_loop w rest (Suc idx) (tbl', qs @ [q])"
  by simp





lemma find_markets_falsy:
  "fetch_event_data w API_URL = Inr ev \<Longrightarrow> \<not> truthy ev \<Longrightarrow> find_markets w = Inl NoEventData"
  by (simp add: find_markets_def)






section \<open>Dictionaries and the table\<close>

lemma map_of_dict_set: "map_of (dict_set k v kvs) = (map_of kvs)(k \<mapsto> v)"
  by (induction kvs) (auto simp: fun_eq_iff)

lemma keys_dict_set:
  "map fst (dict_set k v kvs) = (if k \<in> fst ` set kvs then map fst kvs else map fst kvs @ [k])"
  by (induction kvs) auto

lemma distinct_dict_set: "distinct (map fst kvs) \<Longrightarrow> distinct (map fst (dict_set k v kvs))"
  by (simp add: keys_dict_set)

lemma set_dict_set:
  "distinct (map fst kvs) \<Longrightarrow> set (dict_set k v kvs) = insert (k, v) {kv \<in> set kvs. fst kv \<noteq> k}"
  by (induction kvs) (auto simp: rev_image_eqI)

lemma table_row_set_cell:
  "table_row (set_cell ts k p tbl) ts' = (if ts' = ts then dict_set k p (table_row tbl ts) else table_row tbl ts')"
  by (simp add: table_row_def set_cell_def map_of_dict_set)

lemma cell_set_cell:
  "cell (set_cell ts k p tbl) ts' k' = (if ts' = ts \<and> k' = k then Some p else cell tbl ts' k')"
  by (simp add: cell_def table_row_set_cell map_of_dict_set)

lemma table_row_in: "distinct (map fst tbl) \<Longrightarrow> (ts, r) \<in> set tbl \<Longrightarrow> table_row tbl ts = r"
  by (simp add: table_row_def)

lemma one_price_table_row: "one_price_per_cell tbl \<Longrightarrow> distinct (map fst (table_row tbl ts))"
  by (auto simp: one_price_per_cell_def table_row_def list_all_iff split: option.splits dest!: map_of_SomeD)

lemma one_price_set_cell: "one_price_per_cell tbl \<Longrightarrow> one_price_per_cell (set_cell ts k p tbl)"
proof -
  assume a: "one_price_per_cell tbl"
  then have d: "distinct (map fst tbl)" by (simp add: one_price_per_cell_def)
  have r: "distinct (map fst (dict_set k p (table_row tbl ts)))"
    using a by (simp add: one_price_table_row distinct_dict_set)
  have "list_all (\<lambda>tr. distinct (map fst (snd tr))) (dict_set ts (dict_set k p (table_row tbl ts)) tbl)"
    using a r d by (auto simp: list_all_iff set_dict_set one_price_per_cell_def)
  then show ?thesis using d by (simp add: one_price_per_cell_def set_cell_def distinct_dict_set)
qed

lemma add_point_Inr:
  "add_point w q dp tbl = Inr tbl' \<Longrightarrow>
   \<exists>ts p k. point_key w dp = Inr ts \<and> getitem_key dp ''p'' = Inr p \<and> hash_key q = Inr k \<and>
     tbl' = set_cell ts k p tbl"
  by (auto simp: add_point_def split: sum.splits)

lemma one_price_add_point:
  "one_price_per_cell tbl \<Longrightarrow> add_point w q dp tbl = Inr tbl' \<Longrightarrow> one_price_per_cell tbl'"
  by (auto dest!: add_point_Inr simp: one_price_set_cell)

lemma one_price_add_points:
  "one_price_per_cell tbl \<Longrightarrow> add_points w q pts tbl = Inr tbl' \<Longrightarrow> one_price_per_cell tbl'"
  by (induction pts arbitrary: tbl) (auto split: sum.splits dest: one_price_add_point)

lemma add_points_cell:
  "add_points w q pts tbl = Inr tbl' \<Longrightarrow> hash_key q = Inr k \<Longrightarrow>
   cell tbl' ts k' =
     (if k' = k then (case last_price w pts ts of Some p \<Rightarrow> Some p | None \<Rightarrow> cell tbl ts k')
      else cell tbl ts k')"
proof (induction pts arbitrary: tbl)
  case Nil
  then show ?case by simp
next
  case (Cons dp pts)
  from Cons.prems(1) obtain tbl1 where 1: "add_point w q dp tbl = Inr tbl1"
    and 2: "add_points w q pts tbl1 = Inr tbl'"
    by (auto split: sum.splits)
  from add_point_Inr [OF 1] Cons.prems(2) obtain ts0 p0 where
    3: "point_key w dp = Inr ts0" "getitem_key dp ''p'' = Inr p0" "tbl1 = set_cell ts0 k p0 tbl"
    by auto
  show ?case
    using Cons.IH [OF 2 Cons.prems(2)] 3
    by (auto simp: cell_set_cell split: option.splits)
qed

section \<open>A market whose token cannot be extracted\<close>

lemma process_market_caught:
  "dict_get market ''clobTokenIds'' (JStr ''N/A'') = Inr tok \<Longrightarrow>
   market_question market idx = Inr q \<Longrightarrow> first_token w tok = Inl e \<Longrightarrow> caught e \<Longrightarrow>
   process_market w market idx = Inr (q, JNull, [])"
  by (simp add: process_market_def)

lemma first_token_cases:
  "(json_loads w s = Inl JSONDecodeError \<longrightarrow> first_token w (JStr s) = Inl JSONDecodeError) \<and>
   (json_loads w s = Inr (JList []) \<longrightarrow> first_token w (JStr s) = Inl IndexError) \<and>
   (json_loads w s = Inr (JList (JStr x # xs)) \<and> str_int w x = None \<longrightarrow>
      first_token w (JStr s) = Inl ValueError)"
  by (simp add: first_token_def)

text \<open>
  Claim C3, as amended. When the token extraction of a market (a JSON object) raises
  one of the three exceptions the handler names, JSONDecodeError, IndexError or
  ValueError, \<^verbatim>\<open>process_market\<close> returns the question with \<^verbatim>\<open>None\<close> for the history and
  sends no request, and the loop goes on to the next markets with the question appended
  and the table as it was. That is the case when \<^verbatim>\<open>clobTokenIds\<close> is a string that is not
  JSON (such as "not-json"), that decodes to an empty list, or whose first element is a
  string that \<^verbatim>\<open>int\<close> rejects.
\<close>

theorem malformed_token_skips_market:
  "(dict_get market ''clobTokenIds'' (JStr ''N/A'') = Inr tok \<and>
    market_question market idx = Inr q \<and> first_token w tok = Inl e \<and> caught e \<longrightarrow>
      process_market w market idx = Inr (q, JNull, []) \<and>
      market_loop w (market # rest) idx (tbl, qs) =
        market_loop w rest (Suc idx) (tbl, qs @ [q])) \<and>
   (json_loads w s = Inl JSONDecodeError \<longrightarrow> first_token w (JStr s) = Inl JSONDecodeError) \<and>
   (json_loads w s = Inr (JList []) \<longrightarrow> first_token w (JStr s) = Inl IndexError) \<and>
   (json_loads w s = Inr (JList (JStr x # xs)) \<and> str_int w x = None \<longrightarrow>
      first_token w (JStr s) = Inl ValueError) \<and>
   caught JSONDecodeError \<and> caught IndexError \<and> caught ValueError"
proof -
  have "process_market w market idx = Inr (q, JNull, []) \<and>
      market_loop w (market # rest) idx (tbl, qs) =
        market_loop w rest (Suc idx) (tbl, qs @ [q])"
    if "dict_get market ''clobTokenIds'' (JStr ''N/A'') = Inr tok"
      "market_question market idx = Inr q" "first_token w tok = Inl e" "caught e"
  proof -
    have p: "process_market w market idx = Inr (q, JNull, [])"
      using that by (rule process_market_caught)
    show ?thesis using p market_loop_skip [OF p] by simp
  qed
  then show ?thesis
    using first_token_cases [of w s x xs] by (simp add: caught_def)
qed

text \<open>
  The theorem at a run of two markets: the first has \<^verbatim>\<open>clobTokenIds\<close> "not-json", the
  second is market Q1 of the end-to-end example.
\<close>

theorem malformed_token_skips_market_witness:
  "process_market (example_world (ok_response bad_then_good) two_histories)
     (example_market ''Bad'' ''not-json'') 0 = Inr (JStr ''Bad'', JNull, []) \<and>
   market_loop (example_world (ok_response bad_then_good) two_histories)
     [example_market ''Bad'' ''not-json'', example_market ''Q1'' (token_array ''111'')] 0 ([], []) =
     Inr ([(''2023-11-14 17:13:20 ET'', [(KStr ''Q1'', JFloat (1 / 2))])], [JStr ''Bad'', JStr ''Q1''])"
proof -
  let ?w = "example_world (ok_response bad_then_good) two_histories"
  let ?bad = "example_market ''Bad'' ''not-json''"
  have 1: "dict_get ?bad ''clobTokenIds'' (JStr ''N/A'') = Inr (JStr ''not-json'')"
    by (simp add: example_defs)
  have 2: "market_question ?bad 0 = Inr (JStr ''Bad'')"
    by (simp add: example_defs market_question_def)
  have 3: "json_loads ?w ''not-json'' = Inl JSONDecodeError"
    by (simp add: example_defs)
  have 4: "market_loop ?w [example_market ''Q1'' (token_array ''111'')] (Suc 0) ([], [] @ [JStr ''Bad'']) =
     Inr ([(''2023-11-14 17:13:20 ET'', [(KStr ''Q1'', JFloat (1 / 2))])], [JStr ''Bad'', JStr ''Q1''])"
    by (simp add: run_defs example_defs time_defs)
  from malformed_token_skips_market [of ?bad "JStr ''not-json''" 0 "JStr ''Bad''" ?w JSONDecodeError
      "[example_market ''Q1'' (token_array ''111'')]" "[]" "[]" "''not-json''"] 1 2 3
  have "process_market ?w ?bad 0 = Inr (JStr ''Bad'', JNull, [])"
    "market_loop ?w [?bad, example_market ''Q1'' (token_array ''111'')] 0 ([], []) =
      market_loop ?w [example_market ''Q1'' (token_array ''111'')] (Suc 0) ([], [] @ [JStr ''Bad''])"
    by blast+
  with 4 show ?thesis by simp
qed

text \<open>
  Claim C3 as stated fails for the failures the handler does not name: a
  \<^verbatim>\<open>clobTokenIds\<close> that is \<^verbatim>\<open>null\<close> (\<^verbatim>\<open>json.loads\<close> raises TypeError), the string
  "[null]" (\<^verbatim>\<open>int(None)\<close> raises TypeError) and the string "{}" (element 0 of a dict
  raises KeyError). The exception leaves \<^verbatim>\<open>process_market\<close> and ends the run, although
  the next market is a good one.
\<close>

theorem uncaught_token_failure_counterexample:
  "process_market (example_world NoResponse (\<lambda>t. NoResponse))
     (JDict [(''question'', JStr ''Q''), (''clobTokenIds'', JNull)]) 0 = Inl TypeError \<and>
   process_market (example_world NoResponse (\<lambda>t. NoResponse))
     (example_market ''Q'' ''[null]'') 0 = Inl TypeError \<and>
   process_market (example_world NoResponse (\<lambda>t. NoResponse))
     (example_market ''Q'' ''{}'') 0 = Inl KeyError \<and>
   main (example_world (ok_response (example_event [example_market ''Q'' ''[null]'',
       example_market ''Q1'' (token_array ''111'')])) two_histories) = Raised TypeError None"
  by (simp add: run_defs example_defs)

section \<open>The loop and the exported rows\<close>

lemma process_market_question:
  "process_market w m idx = Inr (q, h, sent) \<Longrightarrow> market_question m idx = Inr q"
  by (auto simp: process_market_def split: sum.splits if_splits)

lemma market_loop_questions:
  "market_loop w ms idx (tbl, qs) = Inr (tbl', qs') \<Longrightarrow>
   \<exists>new. qs' = qs @ new \<and>
     list_all2 (\<lambda>im q. market_question (snd im) (fst im) = Inr q) (enumerate idx ms) new"
proof (induction ms arbitrary: idx tbl qs)
  case Nil
  then show ?case by simp
next
  case (Cons m ms)
  from Cons.prems obtain q h sent where p: "process_market w m idx = Inr (q, h, sent)"
    by (auto split: sum.splits)
  from Cons.prems p obtain tbl1 where
    l: "market_loop w ms (Suc idx) (tbl1, qs @ [q]) = Inr (tbl', qs')"
    by (auto split: sum.splits if_splits)
  from Cons.IH [OF l] obtain new where
    n: "qs' = (qs @ [q]) @ new"
      "list_all2 (\<lambda>im q. market_question (snd im) (fst im) = Inr q) (enumerate (Suc idx) ms) new"
    by blast
  have "qs' = qs @ (q # new)" using n(1) by simp
  moreover have "list_all2 (\<lambda>im q. market_question (snd im) (fst im) = Inr q)
      (enumerate idx (m # ms)) (q # new)"
    using n(2) process_market_question [OF p] by simp
  ultimately show ?case by blast
qed

lemma market_loop_questions_nth:
  assumes "market_loop w ms 0 ([], []) = Inr (tbl, qs)"
  shows "length qs = length ms \<and> (\<forall>i<length ms. market_question (ms ! i) i = Inr (qs ! i))"
proof -
  from market_loop_questions [OF assms] have
    a: "list_all2 (\<lambda>im q. market_question (snd im) (fst im) = Inr q) (enumerate 0 ms) qs"
    by simp
  then have len: "length qs = length ms"
    by (auto dest: list_all2_lengthD)
  have "market_question (ms ! i) i = Inr (qs ! i)" if "i < length ms" for i
    using list_all2_nthD [OF a, of i] that by (simp add: nth_enumerate_eq)
  with len show ?thesis by blast
qed

lemma cells_Inr:
  "cells r qs = Inr cs \<Longrightarrow>
   list_all2 (\<lambda>q c. \<exists>k. hash_key q = Inr k \<and>
      c = (case map_of r k of None \<Rightarrow> JStr [] | Some price \<Rightarrow> price)) qs cs"
  by (induction qs arbitrary: cs) (auto split: sum.splits)

lemma write_rows_rows:
  "write_rows all_data qs tss written = (r, rows) \<Longrightarrow>
   \<exists>new. rows = written @ new \<and> length new \<le> length tss \<and>
     (r = None \<longrightarrow> length new = length tss) \<and>
     list_all2 (\<lambda>ts row. \<exists>cs. cells (table_row all_data ts) qs = Inr cs \<and> row = JStr ts # cs)
       (take (length new) tss) new"
proof (induction tss arbitrary: written)
  case Nil
  then show ?case by simp
next
  case (Cons ts tss)
  show ?case
  proof (cases "cells (table_row all_data ts) qs")
    case (Inl e)
    with Cons.prems have "rows = written @ []" "r \<noteq> None" by auto
    then show ?thesis by fastforce
  next
    case (Inr cs)
    with Cons.prems have "write_rows all_data qs tss (written @ [JStr ts # cs]) = (r, rows)"
      by simp
    from Cons.IH [OF this] obtain new where
      n: "rows = (written @ [JStr ts # cs]) @ new" "length new \<le> length tss"
        "r = None \<longrightarrow> length new = length tss"
        "list_all2 (\<lambda>ts row. \<exists>cs. cells (table_row all_data ts) qs = Inr cs \<and> row = JStr ts # cs)
           (take (length new) tss) new"
      by blast
    let ?new = "(JStr ts # cs) # new"
    have "rows = written @ ?new" using n(1) by simp
    moreover have "length ?new \<le> length (ts # tss)" using n(2) by simp
    moreover have "r = None \<longrightarrow> length ?new = length (ts # tss)" using n(3) by simp
    moreover have "list_all2 (\<lambda>ts row. \<exists>cs. cells (table_row all_data ts) qs = Inr cs \<and> row = JStr ts # cs)
           (take (length ?new) (ts # tss)) ?new"
      using n(4) Inr by simp
    ultimately show ?thesis by blast
  qed
qed

lemma export_rows:
  assumes "export_combined_csv all_data questions = (r, rows)"
  shows "\<exists>new. rows = (JStr ''Timestamp (ET)'' # questions) # new \<and>
     length new \<le> length all_data \<and> (r = None \<longrightarrow> length new = length all_data) \<and>
     list_all2 (\<lambda>ts row. \<exists>cs. cells (table_row all_data ts) questions = Inr cs \<and> row = JStr ts # cs)
       (take (length new) (sort (map fst all_data))) new"
  using write_rows_rows [of all_data questions "sort (map fst all_data)"
      "[JStr ''Timestamp (ET)'' # questions]" r rows] assms
  by (simp add: export_combined_csv_def)

lemma export_header:
  "export_combined_csv all_data questions = (r, rows) \<Longrightarrow>
   rows \<noteq> [] \<and> hd rows = JStr ''Timestamp (ET)'' # questions"
  by (auto dest: export_rows)

lemma main_file:
  assumes "find_markets w = Inr ms" "output_file (main w) = Some rows"
  shows "\<exists>tbl qs r. market_loop w ms 0 ([], []) = Inr (tbl, qs) \<and> tbl \<noteq> [] \<and>
     export_combined_csv tbl qs = (r, rows)"
  using assms
  by (auto simp: main_def aggregate_def split: sum.splits if_splits prod.splits option.splits)

lemma main_exports:
  assumes "find_markets w = Inr ms" "market_loop w ms 0 ([], []) = Inr (all_data, questions)"
    "all_data \<noteq> []"
  shows "\<exists>r rows. export_combined_csv all_data questions = (r, rows) \<and>
     output_file (main w) = Some rows"
  using assms
  by (cases "export_combined_csv all_data questions")
    (auto simp: main_def aggregate_def split: option.splits)

lemma find_markets_Inl: "find_markets w = Inl r \<Longrightarrow> output_file r = None"
  by (auto simp: find_markets_def split: sum.splits if_splits)

lemma main_file_loop:
  assumes "output_file (main w) = Some rows"
  shows "\<exists>ms all_data questions. find_markets w = Inr ms \<and>
     market_loop w ms 0 ([], []) = Inr (all_data, questions) \<and> all_data \<noteq> []"
proof (cases "find_markets w")
  case (Inl r)
  from find_markets_Inl [OF Inl] Inl assms show ?thesis by (simp add: main_def)
next
  case (Inr ms)
  from main_file [OF Inr assms] Inr show ?thesis by blast
qed

lemma main_loop_raises:
  "find_markets w = Inr ms \<Longrightarrow> market_loop w ms 0 ([], []) = Inl e \<Longrightarrow> main w = Raised e None"
  by (simp add: main_def aggregate_def)

lemma export_column:
  assumes "export_combined_csv all_data questions = (r, rows)" "i < length questions"
    "hash_key (questions ! i) = Inr k"
  shows "\<forall>row \<in> set (tl rows). \<exists>ts. row ! 0 = JStr ts \<and>
     row ! Suc i = (case cell all_data ts k of None \<Rightarrow> JStr [] | Some price \<Rightarrow> price)"
proof -
  from export_rows [OF assms(1)] obtain new where
    n: "rows = (JStr ''Timestamp (ET)'' # questions) # new"
      "list_all2 (\<lambda>ts row. \<exists>cs. cells (table_row all_data ts) questions = Inr cs \<and> row = JStr ts # cs)
         (take (length new) (sort (map fst all_data))) new"
    by blast
  have "\<exists>ts. row ! 0 = JStr ts \<and>
     row ! Suc i = (case cell all_data ts k of None \<Rightarrow> JStr [] | Some price \<Rightarrow> price)"
    if "row \<in> set new" for row
  proof -
    from that obtain m where m: "m < length new" "new ! m = row"
      by (auto simp: in_set_conv_nth)
    from list_all2_nthD2 [OF n(2) m(1)] m(2) obtain ts cs where
      c: "cells (table_row all_data ts) questions = Inr cs" "row = JStr ts # cs"
      by auto
    from cells_Inr [OF c(1)] have
      l: "list_all2 (\<lambda>q c. \<exists>k. hash_key q = Inr k \<and>
        c = (case map_of (table_row all_data ts) k of None \<Rightarrow> JStr [] | Some price \<Rightarrow> price))
        questions cs" .
    from list_all2_nthD [OF l assms(2)] assms(3)
    have "cs ! i = (case cell all_data ts k of None \<Rightarrow> JStr [] | Some price \<Rightarrow> price)"
      by (simp add: cell_def)
    with c(2) show ?thesis by simp
  qed
  with n(1) show ?thesis by simp
qed


section \<open>The series of the markets merge by question\<close>

lemma add_points_cell_other:
  assumes "add_points w q pts tbl = Inr tbl'" "hash_key q \<noteq> Inr k"
  shows "cell tbl' ts k = cell tbl ts k"
proof (cases "hash_key q")
  case (Inl e)
  with assms(1) have "tbl' = tbl"
    by (cases pts) (auto simp: add_point_def split: sum.splits)
  then show ?thesis by simp
next
  case (Inr k0)
  with assms(2) have "k \<noteq> k0" by auto
  with add_points_cell [OF assms(1) Inr, of ts k] show ?thesis by simp
qed

lemma market_price_skip:
  "process_market w m idx = Inr (q, h, sent) \<Longrightarrow> \<not> truthy h \<Longrightarrow>
   market_price w m idx k ts = None"
  by (simp add: market_price_def)

lemma market_price_add:
  "process_market w m idx = Inr (q, h, sent) \<Longrightarrow> truthy h \<Longrightarrow> py_iter h = Inr pts \<Longrightarrow>
   market_price w m idx k ts = (if hash_key q = Inr k then last_price w pts ts else None)"
  by (simp add: market_price_def)

lemma market_loop_cell:
  "market_loop w ms idx (tbl, qs) = Inr (tbl', qs') \<Longrightarrow>
   cell tbl' ts k =
     (case merged_price w ms idx k ts of Some price \<Rightarrow> Some price | None \<Rightarrow> cell tbl ts k)"
proof (induction ms arbitrary: idx tbl qs)
  case Nil
  then show ?case by simp
next
  case (Cons m ms)
  from Cons.prems obtain q h sent where p: "process_market w m idx = Inr (q, h, sent)"
    by (auto split: sum.splits)
  show ?case
  proof (cases "truthy h")
    case False
    with Cons.prems p have "market_loop w ms (Suc idx) (tbl, qs @ [q]) = Inr (tbl', qs')"
      by simp
    from Cons.IH [OF this] market_price_skip [OF p False, of k ts] show ?thesis
      by (simp split: option.splits)
  next
    case True
    with Cons.prems p obtain pts tbl1 where
      i: "py_iter h = Inr pts" and
      a: "add_points w q pts tbl = Inr tbl1" and
      l: "market_loop w ms (Suc idx) (tbl1, qs @ [q]) = Inr (tbl', qs')"
      by (auto split: sum.splits)
    have c: "cell tbl1 ts k =
        (case market_price w m idx k ts of Some price \<Rightarrow> Some price | None \<Rightarrow> cell tbl ts k)"
    proof (cases "hash_key q = Inr k")
      case k: True
      from add_points_cell [OF a k, of ts k] market_price_add [OF p True i, of k ts] k
      show ?thesis by simp
    next
      case k: False
      from add_points_cell_other [OF a k, of ts] market_price_add [OF p True i, of k ts] k
      show ?thesis by simp
    qed
    from Cons.IH [OF l] c show ?thesis
      by (simp split: option.splits)
  qed
qed

lemma market_loop_merged:
  assumes "market_loop w ms 0 ([], []) = Inr (all_data, questions)"
  shows "cell all_data ts k = merged_price w ms 0 k ts"
  using market_loop_cell [OF assms, of ts k]
  by (simp add: cell_def table_row_def split: option.splits)

lemma merged_price_None:
  "\<forall>l<length ms. market_price w (ms ! l) (idx + l) k ts = None \<Longrightarrow>
   merged_price w ms idx k ts = None"
proof (induction ms arbitrary: idx)
  case Nil
  then show ?case by simp
next
  case (Cons m ms)
  have "\<forall>l<length ms. market_price w (ms ! l) (Suc idx + l) k ts = None"
  proof (intro allI impI)
    fix l
    assume "l < length ms"
    with Cons.prems [rule_format, of "Suc l"]
    show "market_price w (ms ! l) (Suc idx + l) k ts = None" by simp
  qed
  from Cons.IH [OF this] Cons.prems [rule_format, of 0] show ?case by simp
qed

lemma merged_price_last:
  "j < length ms \<Longrightarrow> market_price w (ms ! j) (idx + j) k ts = Some price \<Longrightarrow>
   \<forall>l. j < l \<and> l < length ms \<longrightarrow> market_price w (ms ! l) (idx + l) k ts = None \<Longrightarrow>
   merged_price w ms idx k ts = Some price"
proof (induction ms arbitrary: idx j)
  case Nil
  then show ?case by simp
next
  case (Cons m ms)
  show ?case
  proof (cases j)
    case 0
    have "\<forall>l<length ms. market_price w (ms ! l) (Suc idx + l) k ts = None"
    proof (intro allI impI)
      fix l
      assume "l < length ms"
      with Cons.prems(3) [rule_format, of "Suc l"] 0
      show "market_price w (ms ! l) (Suc idx + l) k ts = None" by simp
    qed
    from merged_price_None [OF this] Cons.prems(2) 0 show ?thesis by simp
  next
    case (Suc j')
    have a: "j' < length ms" using Cons.prems(1) Suc by simp
    have b: "market_price w (ms ! j') (Suc idx + j') k ts = Some price"
      using Cons.prems(2) Suc by simp
    have c: "\<forall>l. j' < l \<and> l < length ms \<longrightarrow> market_price w (ms ! l) (Suc idx + l) k ts = None"
    proof (intro allI impI)
      fix l
      assume "j' < l \<and> l < length ms"
      with Cons.prems(3) [rule_format, of "Suc l"] Suc
      show "market_price w (ms ! l) (Suc idx + l) k ts = None" by simp
    qed
    from Cons.IH [OF a b c] show ?thesis by simp
  qed
qed

lemma market_loop_all_skipped:
  "\<forall>i<length ms. \<exists>q h sent. process_market w (ms ! i) (idx + i) = Inr (q, h, sent) \<and> \<not> truthy h \<Longrightarrow>
   \<exists>qs'. market_loop w ms idx (tbl, qs) = Inr (tbl, qs')"
proof (induction ms arbitrary: idx qs)
  case Nil
  then show ?case by simp
next
  case (Cons m ms)
  from Cons.prems [rule_format, of 0] obtain q h sent where
    p: "process_market w m idx = Inr (q, h, sent)" "\<not> truthy h"
    by auto
  have "\<forall>i<length ms. \<exists>q h sent.
      process_market w (ms ! i) (Suc idx + i) = Inr (q, h, sent) \<and> \<not> truthy h"
  proof (intro allI impI)
    fix i
    assume "i < length ms"
    with Cons.prems [rule_format, of "Suc i"]
    show "\<exists>q h sent. process_market w (ms ! i) (Suc idx + i) = Inr (q, h, sent) \<and> \<not> truthy h"
      by simp
  qed
  from Cons.IH [OF this, of "qs @ [q]"] p show ?case by simp
qed

section \<open>The header\<close>




section \<open>Runs that end without a file, and the end-to-end example\<close>

lemma primary_event_truthy:
  "primary_event ev = Inr (JDict kvs) \<Longrightarrow> map_of kvs key = Some v \<Longrightarrow> truthy ev"
  by (cases ev) (auto simp: primary_event_def split: list.splits)

lemma find_markets_empty:
  "fetch_event_data w API_URL = Inr ev \<Longrightarrow> primary_event ev = Inr (JDict kvs) \<Longrightarrow>
   map_of kvs ''markets'' = Some (JList []) \<Longrightarrow> find_markets w = Inl NoMarkets"
  using primary_event_truthy [of ev kvs "''markets''" "JList []"]
  by (simp add: find_markets_def)

lemma find_markets_missing:
  "fetch_event_data w API_URL = Inr (JDict kvs) \<Longrightarrow> kvs \<noteq> [] \<Longrightarrow>
   map_of kvs ''markets'' = None \<Longrightarrow> find_markets w = Inl NoMarkets"
  by (simp add: find_markets_def primary_event_def)

lemma main_no_data:
  "find_markets w = Inr ms \<Longrightarrow> market_loop w ms 0 ([], []) = Inr ([], qs) \<Longrightarrow> main w = NoData"
  by (simp add: main_def aggregate_def)

lemma main_all_skipped:
  assumes "find_markets w = Inr ms"
    "\<forall>i<length ms. \<exists>q h sent. process_market w (ms ! i) i = Inr (q, h, sent) \<and> \<not> truthy h"
  shows "main w = NoData"
proof -
  have "\<forall>i<length ms. \<exists>q h sent.
      process_market w (ms ! i) (0 + i) = Inr (q, h, sent) \<and> \<not> truthy h"
    using assms(2) by simp
  from market_loop_all_skipped [OF this, of "[]" "[]"] obtain qs where
    "market_loop w ms 0 ([], []) = Inr ([], qs)"
    by blast
  from main_no_data [OF assms(1) this] show ?thesis .
qed

text \<open>
  Claim C8, as amended. When the event (the payload, or its first element when the
  payload is a list) has an empty \<^verbatim>\<open>markets\<close> list, the run ends with no exception and
  no file; so does every run whose loop over the markets ends with an empty table,
  which is the case when no market has a price history. A run whose loop raises an
  exception ends with that exception and no file. So a file is written only when the
  loop has ended with data in the table.
\<close>

theorem empty_run_writes_no_file:
  "(fetch_event_data w API_URL = Inr ev \<and> primary_event ev = Inr (JDict kvs) \<and>
    map_of kvs ''markets'' = Some (JList []) \<longrightarrow>
      main w = NoMarkets \<and> raised (main w) = None \<and> output_file (main w) = None) \<and>
   (find_markets w = Inr ms \<and> market_loop w ms 0 ([], []) = Inr ([], qs) \<longrightarrow>
      main w = NoData \<and> raised (main w) = None \<and> output_file (main w) = None) \<and>
   (find_markets w = Inr ms \<and>
    (\<forall>i<length ms. \<exists>q h sent. process_market w (ms ! i) i = Inr (q, h, sent) \<and> \<not> truthy h) \<longrightarrow>
      main w = NoData \<and> raised (main w) = None \<and> output_file (main w) = None) \<and>
   (find_markets w = Inr ms \<and> market_loop w ms 0 ([], []) = Inl e \<longrightarrow>
      main w = Raised e None \<and> output_file (main w) = None) \<and>
   (output_file (main w) = Some rows \<longrightarrow>
      (\<exists>ms all_data questions. find_markets w = Inr ms \<and>
         market_loop w ms 0 ([], []) = Inr (all_data, questions) \<and> all_data \<noteq> []))"
proof -
  have a: "main w = NoMarkets \<and> raised (main w) = None \<and> output_file (main w) = None"
    if "fetch_event_data w API_URL = Inr ev" "primary_event ev = Inr (JDict kvs)"
      "map_of kvs ''markets'' = Some (JList [])"
    using find_markets_empty [OF that] by (simp add: main_def)
  have b: "main w = NoData \<and> raised (main w) = None \<and> output_file (main w) = None"
    if "find_markets w = Inr ms" "market_loop w ms 0 ([], []) = Inr ([], qs)"
    using main_no_data [OF that] by simp
  have c: "main w = NoData \<and> raised (main w) = None \<and> output_file (main w) = None"
    if "find_markets w = Inr ms"
      "\<forall>i<length ms. \<exists>q h sent. process_market w (ms ! i) i = Inr (q, h, sent) \<and> \<not> truthy h"
    using main_all_skipped [OF that] by simp
  have d: "main w = Raised e None \<and> output_file (main w) = None"
    if "find_markets w = Inr ms" "market_loop w ms 0 ([], []) = Inl e"
    using main_loop_raises [OF that] by simp
  from a b c d main_file_loop [of w rows] show ?thesis
    by blast
qed

text \<open>
  The theorem at a payload that is a list holding an event with no markets, at an event
  whose only market has an empty price history, at an event whose only market has a
  price point without a price, and at the run of the end-to-end example, which writes
  the file.
\<close>

theorem empty_run_writes_no_file_witness:
  "main (example_world (ok_response (JList [no_markets_event])) two_histories) = NoMarkets \<and>
   main (example_world (ok_response no_data_event) two_histories) = NoData \<and>
   main (example_world (ok_response no_price_event) no_price_history) = Raised KeyError None \<and>
   (\<exists>ms all_data questions.
      find_markets (example_world (ok_response two_markets) two_histories) = Inr ms \<and>
      market_loop (example_world (ok_response two_markets) two_histories) ms 0 ([], []) =
        Inr (all_data, questions) \<and> all_data \<noteq> [])"
proof -
  let ?w = "example_world (ok_response (JList [no_markets_event])) two_histories"
  let ?v = "example_world (ok_response no_data_event) two_histories"
  let ?u = "example_world (ok_response no_price_event) no_price_history"
  let ?e = "example_world (ok_response two_markets) two_histories"
  let ?m1 = "example_market ''Q1'' (token_array ''111'')"
  let ?m2 = "example_market ''Q2'' (token_array ''222'')"
  have 1: "fetch_event_data ?w API_URL = Inr (JList [no_markets_event]) \<and>
    primary_event (JList [no_markets_event]) =
      Inr (JDict [(''title'', JStr ''An event''), (''markets'', JList [])]) \<and>
    map_of [(''title'', JStr ''An event''), (''markets'', JList [])] ''markets'' = Some (JList [])"
    by (simp add: run_defs example_defs)
  have 2: "find_markets ?v = Inr [?m2] \<and> market_loop ?v [?m2] 0 ([], []) = Inr ([], [JStr ''Q2''])"
    by (simp add: run_defs example_defs)
  have 3: "find_markets ?v = Inr [?m2] \<and>
    (\<forall>i<length [?m2]. \<exists>q h sent. process_market ?v ([?m2] ! i) i = Inr (q, h, sent) \<and> \<not> truthy h)"
    by (simp add: run_defs example_defs)
  have 4: "find_markets ?u = Inr [?m1] \<and> market_loop ?u [?m1] 0 ([], []) = Inl KeyError"
    by (simp add: run_defs example_defs time_defs)
  have 5: "output_file (main ?e) =
      Some [[JStr ''Timestamp (ET)'', JStr ''Q1'', JStr ''Q2''],
            [JStr ''2023-11-14 17:13:20 ET'', JFloat (1 / 2), JStr []]]"
    by (simp add: main_two_markets)
  note t = empty_run_writes_no_file [where w = ?w and ev = "JList [no_markets_event]"
      and kvs = "[(''title'', JStr ''An event''), (''markets'', JList [])]"]
  note s = empty_run_writes_no_file [where w = ?v and ms = "[?m2]" and qs = "[JStr ''Q2'']"]
  note r = empty_run_writes_no_file [where w = ?u and ms = "[?m1]" and e = KeyError]
  note x = empty_run_writes_no_file [where w = ?e
      and rows = "[[JStr ''Timestamp (ET)'', JStr ''Q1'', JStr ''Q2''],
            [JStr ''2023-11-14 17:13:20 ET'', JFloat (1 / 2), JStr []]]"]
  from t [THEN conjunct1, THEN mp, OF 1] have a: "main ?w = NoMarkets"
    by simp
  from s [THEN conjunct2, THEN conjunct1, THEN mp, OF 2] have b: "main ?v = NoData"
    by simp
  from s [THEN conjunct2, THEN conjunct2, THEN conjunct1, THEN mp, OF 3] have b': "main ?v = NoData"
    by simp
  from r [THEN conjunct2, THEN conjunct2, THEN conjunct2, THEN conjunct1, THEN mp, OF 4]
  have c: "main ?u = Raised KeyError None"
    by simp
  from x [THEN conjunct2, THEN conjunct2, THEN conjunct2, THEN conjunct2, THEN mp, OF 5]
  have d: "\<exists>ms all_data questions. find_markets ?e = Inr ms \<and>
      market_loop ?e ms 0 ([], []) = Inr (all_data, questions) \<and> all_data \<noteq> []" .
  from a b c d show ?thesis by (intro conjI)
qed

text \<open>
  Claim C8 as stated fails for a run that raises while the table is empty. The only
  market of the event has the price history \<^verbatim>\<open>[{"t": 1700000000}]\<close>; the lookup of
  the price raises KeyError before anything is stored, and the run ends with that
  exception. It writes no file.
\<close>

theorem raise_with_no_data_counterexample:
  "find_markets (example_world (ok_response no_price_event) no_price_history) =
     Inr [example_market ''Q1'' (token_array ''111'')] \<and>
   process_market (example_world (ok_response no_price_event) no_price_history)
     (example_market ''Q1'' (token_array ''111'')) 0 =
     Inr (JStr ''Q1'', JList [JDict [(''t'', JInt 1700000000)]], [history_request 111]) \<and>
   add_point (example_world (ok_response no_price_event) no_price_history) (JStr ''Q1'')
     (JDict [(''t'', JInt 1700000000)]) [] = Inl KeyError \<and>
   main (example_world (ok_response no_price_event) no_price_history) = Raised KeyError None \<and>
   raised (main (example_world (ok_response no_price_event) no_price_history)) = Some KeyError \<and>
   output_file (main (example_world (ok_response no_price_event) no_price_history)) = None"
  by (simp add: run_defs example_defs time_defs)

text \<open>
  Claim C10. A payload that is falsy ends the run in the branch of a failed fetch (whose
  result \<^verbatim>\<open>None\<close> is one such payload): the message "No event data", no exception, no
  file. A non-empty object without the key \<^verbatim>\<open>markets\<close> ends the run with "No markets",
  no exception and no file, exactly as the same object with an empty \<^verbatim>\<open>markets\<close> list
  does.
\<close>

theorem falsy_payload_ends_cleanly:
  "(fetch_event_data w API_URL = Inr ev \<and> \<not> truthy ev \<longrightarrow>
      main w = NoEventData \<and> raised (main w) = None \<and> output_file (main w) = None) \<and>
   (fetch_event_data w API_URL = Inr (JDict kvs) \<and> kvs \<noteq> [] \<and> map_of kvs ''markets'' = None \<longrightarrow>
      main w = NoMarkets \<and> raised (main w) = None \<and> output_file (main w) = None) \<and>
   (fetch_event_data w API_URL = Inr (JDict kvs) \<and> kvs \<noteq> [] \<and> map_of kvs ''markets'' = None \<and>
    fetch_event_data w' API_URL = Inr (JDict (kvs @ [(''markets'', JList [])])) \<longrightarrow>
      main w' = main w)"
proof -
  have a: "main w = NoEventData" if "fetch_event_data w API_URL = Inr ev" "\<not> truthy ev"
    using find_markets_falsy [OF that] by (simp add: main_def)
  have b: "main w = NoMarkets"
    if "fetch_event_data w API_URL = Inr (JDict kvs)" "kvs \<noteq> []" "map_of kvs ''markets'' = None"
    using find_markets_missing [OF that] by (simp add: main_def)
  have c: "main w' = NoMarkets"
    if "map_of kvs ''markets'' = None"
      "fetch_event_data w' API_URL = Inr (JDict (kvs @ [(''markets'', JList [])]))"
  proof -
    have "map_of (kvs @ [(''markets'', JList [])]) ''markets'' = Some (JList [])"
      using that(1) by (simp add: map_add_def)
    from find_markets_empty [OF that(2) _ this] show ?thesis
      by (simp add: main_def primary_event_def)
  qed
  from a b c show ?thesis by simp
qed

text \<open>
  The theorem at the payloads \<^verbatim>\<open>[]\<close>, \<^verbatim>\<open>{}\<close> and an event that has only a title.
\<close>

theorem falsy_payload_ends_cleanly_witness:
  "main (example_world (ok_response (JList [])) two_histories) = NoEventData \<and>
   main (example_world (ok_response (JDict [])) two_histories) = NoEventData \<and>
   main (example_world (ok_response (JDict [(''title'', JStr ''An event'')])) two_histories) = NoMarkets \<and>
   main (example_world (ok_response (JDict ([(''title'', JStr ''An event'')] @ [(''markets'', JList [])])))
      two_histories) = main (example_world (ok_response (JDict [(''title'', JStr ''An event'')])) two_histories)"
proof -
  let ?w = "\<lambda>ev. example_world (ok_response ev) two_histories"
  have f: "fetch_event_data (?w ev) API_URL = Inr ev" for ev
    by (simp add: fetch_event_data_def example_defs)
  have 1: "main (?w (JList [])) = NoEventData"
    using falsy_payload_ends_cleanly [of "?w (JList [])" "JList []"] f [of "JList []"] by simp
  have 2: "main (?w (JDict [])) = NoEventData"
    using falsy_payload_ends_cleanly [of "?w (JDict [])" "JDict []"] f [of "JDict []"] by simp
  let ?kvs = "[(''title'', JStr ''An event'')]"
  have 3: "main (?w (JDict ?kvs)) = NoMarkets \<and>
    main (?w (JDict (?kvs @ [(''markets'', JList [])]))) = main (?w (JDict ?kvs))"
    using falsy_payload_ends_cleanly [of "?w (JDict ?kvs)" _ ?kvs "?w (JDict (?kvs @ [(''markets'', JList [])]))"]
      f [of "JDict ?kvs"] f [of "JDict (?kvs @ [(''markets'', JList [])])"]
    by simp
  from 1 2 3 show ?thesis by blast
qed

text \<open>
  Claim C7. In every world where the event request is answered with the two markets Q1
  (token "111") and Q2 (token "222"), the history of token 111 is the one point
  \<^verbatim>\<open>{t: 1700000000, p: 0.5}\<close> and the history of token 222 is empty, the run exports
  the header "Timestamp (ET)", Q1, Q2 and the single row of the normalized timestamp,
  0.5 and the empty string.
\<close>

theorem end_to_end_example:
  assumes event: "http_get w (Request API_URL []) = Response 200 (Inr two_markets)"
    and loads: "json_loads w (token_array ''111'') = Inr (JList [JStr ''111''])"
      "json_loads w (token_array ''222'') = Inr (JList [JStr ''222''])"
    and ints: "str_int w ''111'' = Some 111" "str_int w ''222'' = Some 222"
    and h1: "http_get w (history_request 111) =
      Response 200 (Inr (history_body [price_point 1700000000 (1 / 2)]))"
    and h2: "http_get w (history_request 222) = Response 200 (Inr (history_body []))"
    and ts: "normalize (utcoffset w) 1700000000 = Inr ts"
  shows "main w = Exported [[JStr ''Timestamp (ET)'', JStr ''Q1'', JStr ''Q2''],
                            [JStr ts, JFloat (1 / 2), JStr []]]"
proof -
  have f: "find_markets w = Inr [example_market ''Q1'' (token_array ''111''),
      example_market ''Q2'' (token_array ''222'')]"
    using event
    by (simp add: find_markets_def fetch_event_data_def raise_for_status_def two_markets_def
        example_event_def primary_event_def)
  have p1: "process_market w (example_market ''Q1'' (token_array ''111'')) 0 =
      Inr (JStr ''Q1'', JList [price_point 1700000000 (1 / 2)], [history_request 111])"
    using loads(1) ints(1) h1
    by (simp add: process_market_def example_market_def market_question_def first_token_def
        fetch_historical_prices_def raise_for_status_def history_body_def)
  have p2: "process_market w (example_market ''Q2'' (token_array ''222'')) 1 =
      Inr (JStr ''Q2'', JList [], [history_request 222])"
    using loads(2) ints(2) h2
    by (simp add: process_market_def example_market_def market_question_def first_token_def
        fetch_historical_prices_def raise_for_status_def history_body_def)
  have a: "add_points w (JStr ''Q1'') [price_point 1700000000 (1 / 2)] [] =
      Inr [(ts, [(KStr ''Q1'', JFloat (1 / 2))])]"
    using ts
    by (simp add: add_point_def point_key_def price_point_def convert_to_eastern_def
        set_cell_def table_row_def)
  have l: "market_loop w [example_market ''Q1'' (token_array ''111''),
      example_market ''Q2'' (token_array ''222'')] 0 ([], []) =
      Inr ([(ts, [(KStr ''Q1'', JFloat (1 / 2))])], [JStr ''Q1'', JStr ''Q2''])"
    using p1 p2 a by simp
  show ?thesis
    using f l by (simp add: main_def aggregate_def export_combined_csv_def table_row_def)
qed

text \<open>
  The theorem in the example world, where the timestamp is 17:13:20 on 2023-11-14.
\<close>

theorem end_to_end_example_witness:
  "main (example_world (ok_response two_markets) two_histories) =
     Exported [[JStr ''Timestamp (ET)'', JStr ''Q1'', JStr ''Q2''],
               [JStr ''2023-11-14 17:13:20 ET'', JFloat (1 / 2), JStr []]]"
proof -
  let ?w = "example_world (ok_response two_markets) two_histories"
  have "normalize (utcoffset ?w) 1700000000 = Inr ''2023-11-14 17:13:20 ET''"
    using normalize_1700000000 by (simp add: example_world_def)
  then show ?thesis
    by (intro end_to_end_example) (simp_all add: example_defs)
qed

section \<open>Last write wins\<close>

lemma last_price_none:
  "\<forall>dp \<in> set pts. point_key w dp \<noteq> Inr ts \<Longrightarrow> last_price w pts ts = None"
  by (induction pts) auto

lemma last_price_last:
  "point_key w dp = Inr ts \<Longrightarrow> getitem_key dp ''p'' = Inr price \<Longrightarrow>
   \<forall>dp' \<in> set post. point_key w dp' \<noteq> Inr ts \<Longrightarrow>
   last_price w (pre @ dp # post) ts = Some price"
  by (induction pre) (simp_all add: last_price_none)

lemma one_price_market_loop:
  "one_price_per_cell tbl \<Longrightarrow> market_loop w ms idx (tbl, qs) = Inr (tbl', qs') \<Longrightarrow>
   one_price_per_cell tbl'"
proof (induction ms arbitrary: idx tbl qs)
  case Nil
  then show ?case by simp
next
  case (Cons m ms)
  from Cons.prems(2) obtain q h sent where p: "process_market w m idx = Inr (q, h, sent)"
    by (auto split: sum.splits)
  show ?case
  proof (cases "truthy h")
    case False
    with Cons.prems p have "market_loop w ms (Suc idx) (tbl, qs @ [q]) = Inr (tbl', qs')"
      by simp
    from Cons.IH [OF Cons.prems(1) this] show ?thesis .
  next
    case True
    with Cons.prems(2) p obtain pts tbl1 where
      a: "add_points w q pts tbl = Inr tbl1" and
      l: "market_loop w ms (Suc idx) (tbl1, qs @ [q]) = Inr (tbl', qs')"
      by (auto split: sum.splits)
    from one_price_add_points [OF Cons.prems(1) a] have "one_price_per_cell tbl1" .
    from Cons.IH [OF this l] show ?thesis .
  qed
qed

lemma one_price_empty: "one_price_per_cell []"
  by (simp add: one_price_per_cell_def)

text \<open>
  Claim C4, as amended. The table holds at most one price per cell at the start, after
  every step of the aggregation and at the end of the loop; and when several points of
  a series have the same timestamp key, the cell of that key holds the price of the
  last of them. Two points have the same key when they normalize to the same string,
  which is the same Eastern-time second, not the same minute.
\<close>

theorem last_write_wins:
  "one_price_per_cell [] \<and>
   (one_price_per_cell tbl \<and> add_point w q dp tbl = Inr tbl1 \<longrightarrow> one_price_per_cell tbl1) \<and>
   (market_loop w ms 0 ([], []) = Inr (tbl2, qs) \<longrightarrow> one_price_per_cell tbl2) \<and>
   (add_points w q (pre @ dp # post) tbl0 = Inr tbl3 \<and> hash_key q = Inr k \<and>
    point_key w dp = Inr ts \<and> getitem_key dp ''p'' = Inr price \<and>
    (\<forall>dp' \<in> set post. point_key w dp' \<noteq> Inr ts) \<longrightarrow>
      cell tbl3 ts k = Some price)"
proof -
  have "cell tbl3 ts k = Some price"
    if "add_points w q (pre @ dp # post) tbl0 = Inr tbl3" "hash_key q = Inr k"
      "point_key w dp = Inr ts" "getitem_key dp ''p'' = Inr price"
      "\<forall>dp' \<in> set post. point_key w dp' \<noteq> Inr ts"
    using add_points_cell [OF that(1,2), of ts k] last_price_last [OF that(3,4,5), of pre]
    by simp
  then show ?thesis
    using one_price_empty one_price_add_point [of tbl w q dp tbl1]
      one_price_market_loop [OF one_price_empty, of w ms 0 "[]" tbl2 qs]
    by blast
qed

text \<open>
  The theorem at two points one hour apart across the end of daylight time, 05:30 and
  06:30 UTC on 2023-11-05: both are 01:30:00 Eastern time, and the later price stays.
\<close>

theorem last_write_wins_witness:
  "add_points (example_world NoResponse (\<lambda>t. NoResponse)) (JStr ''Q'')
     [price_point 1699162200 (2 / 5), price_point 1699165800 (21 / 50)] [] =
     Inr [(''2023-11-05 01:30:00 ET'', [(KStr ''Q'', JFloat (21 / 50))])] \<and>
   cell [(''2023-11-05 01:30:00 ET'', [(KStr ''Q'', JFloat (21 / 50))])]
     ''2023-11-05 01:30:00 ET'' (KStr ''Q'') = Some (JFloat (21 / 50)) \<and>
   one_price_per_cell [(''2023-11-05 01:30:00 ET'', [(KStr ''Q'', JFloat (21 / 50))])]"
proof -
  let ?w = "example_world NoResponse (\<lambda>t. NoResponse)"
  let ?new = "[(''2023-11-05 01:30:00 ET'', [(KStr ''Q'', JFloat (21 / 50))])]"
  let ?old = "[(''2023-11-05 01:30:00 ET'', [(KStr ''Q'', JFloat (2 / 5))])]"
  have k0: "point_key ?w (price_point 1699162200 (2 / 5)) = Inr ''2023-11-05 01:30:00 ET''"
    by (simp add: point_key_def price_point_def example_world_def time_defs)
  have k1: "point_key ?w (price_point 1699165800 (21 / 50)) = Inr ''2023-11-05 01:30:00 ET''"
    by (simp add: point_key_def price_point_def example_world_def time_defs)
  have p0: "getitem_key (price_point 1699162200 (2 / 5)) ''p'' = Inr (JFloat (2 / 5))"
    by (simp add: price_point_def)
  have p: "getitem_key (price_point 1699165800 (21 / 50)) ''p'' = Inr (JFloat (21 / 50))"
    by (simp add: price_point_def)
  have a: "add_points ?w (JStr ''Q'')
      ([price_point 1699162200 (2 / 5)] @ price_point 1699165800 (21 / 50) # []) [] = Inr ?new"
    by (simp add: add_point_def k0 k1 p0 p set_cell_def table_row_def)
  have s: "add_point ?w (JStr ''Q'') (price_point 1699165800 (21 / 50)) ?old = Inr ?new"
    by (simp add: add_point_def k1 p set_cell_def table_row_def)
  have o: "one_price_per_cell ?old"
    by (simp add: one_price_per_cell_def)
  from last_write_wins [where tbl = ?old and w = ?w and q = "JStr ''Q''"
      and dp = "price_point 1699165800 (21 / 50)" and ?tbl1.0 = ?new
      and pre = "[price_point 1699162200 (2 / 5)]" and post = "[]" and ?tbl0.0 = "[]"
      and ?tbl3.0 = ?new and k = "KStr ''Q''" and ts = "''2023-11-05 01:30:00 ET''"
      and price = "JFloat (21 / 50)"] a s o k1 p
  have "cell ?new ''2023-11-05 01:30:00 ET'' (KStr ''Q'') = Some (JFloat (21 / 50))"
    "one_price_per_cell ?new"
    by simp_all
  with a show ?thesis by simp
qed

text \<open>
  Claim C4's example as stated fails: the points at 1700000000 and 1700000030 are in the
  same Eastern-time minute, 17:13, and the table keeps both prices, 0.40 at 17:13:20 and
  0.42 at 17:13:50.
\<close>

theorem same_minute_counterexample:
  "add_points (example_world NoResponse (\<lambda>t. NoResponse)) (JStr ''Q'')
     [price_point 1700000000 (2 / 5), price_point 1700000030 (21 / 50)] [] =
     Inr [(''2023-11-14 17:13:20 ET'', [(KStr ''Q'', JFloat (2 / 5))]),
          (''2023-11-14 17:13:50 ET'', [(KStr ''Q'', JFloat (21 / 50))])]"
  by (simp add: add_point_def point_key_def price_point_def example_world_def time_defs
      set_cell_def table_row_def)

section \<open>The sparse cells on a concrete table\<close>




section \<open>Two markets with the same question\<close>

lemma rows_of_export:
  assumes "export_combined_csv all_data questions = (r, rows)"
  shows "r = None \<longrightarrow> length rows = Suc (length all_data)"
  using export_rows [OF assms] by auto

text \<open>
  Claim C9. The cell is keyed by the question alone, so the series of markets with the
  same question merge in one column: when the loop ends, the cell of a question key
  at a timestamp holds the price of the last market, in the order of processing, that
  has this question key and a point at this timestamp (its last such point), and
  nothing when there is no such market. When the markets at positions \<open>i\<close> and \<open>j\<close>
  have the same question and the table is not empty, the run writes the file, with one
  data row for each timestamp of the table unless an exception stops the exporter; the
  question stands in both header columns, and every data row shows the merged cell of
  its timestamp in both columns, the empty string when the cell is empty.
\<close>

theorem same_question_one_column:
  "(market_loop w ms 0 ([], []) = Inr (all_data, questions) \<longrightarrow>
      cell all_data ts k = merged_price w ms 0 k ts) \<and>
   (j < length ms \<and> market_price w (ms ! j) j k ts = Some price \<and>
    (\<forall>l. j < l \<and> l < length ms \<longrightarrow> market_price w (ms ! l) l k ts = None) \<longrightarrow>
      merged_price w ms 0 k ts = Some price) \<and>
   ((\<forall>l<length ms. market_price w (ms ! l) l k ts = None) \<longrightarrow>
      merged_price w ms 0 k ts = None) \<and>
   (find_markets w = Inr ms \<and> market_loop w ms 0 ([], []) = Inr (all_data, questions) \<and>
    all_data \<noteq> [] \<and> i < length ms \<and> j < length ms \<and>
    market_question (ms ! i) i = Inr q \<and> market_question (ms ! j) j = Inr q \<and>
    hash_key q = Inr k \<longrightarrow>
      (\<exists>r rows. export_combined_csv all_data questions = (r, rows) \<and>
         output_file (main w) = Some rows \<and>
         (r = None \<longrightarrow> length rows = Suc (length all_data)) \<and>
         hd rows ! Suc i = q \<and> hd rows ! Suc j = q \<and>
         (\<forall>row \<in> set (tl rows). \<exists>t. row ! 0 = JStr t \<and>
            row ! Suc i = (case merged_price w ms 0 k t of None \<Rightarrow> JStr [] | Some p \<Rightarrow> p) \<and>
            row ! Suc j = (case merged_price w ms 0 k t of None \<Rightarrow> JStr [] | Some p \<Rightarrow> p))))"
proof -
  have a: "merged_price w ms 0 k ts = Some price"
    if "j < length ms" "market_price w (ms ! j) j k ts = Some price"
      "\<forall>l. j < l \<and> l < length ms \<longrightarrow> market_price w (ms ! l) l k ts = None"
    using merged_price_last [of j ms w 0 k ts price] that by simp
  have b: "merged_price w ms 0 k ts = None"
    if "\<forall>l<length ms. market_price w (ms ! l) l k ts = None"
    using merged_price_None [of ms w 0 k ts] that by simp
  have c: "\<exists>r rows. export_combined_csv all_data questions = (r, rows) \<and>
         output_file (main w) = Some rows \<and>
         (r = None \<longrightarrow> length rows = Suc (length all_data)) \<and>
         hd rows ! Suc i = q \<and> hd rows ! Suc j = q \<and>
         (\<forall>row \<in> set (tl rows). \<exists>t. row ! 0 = JStr t \<and>
            row ! Suc i = (case merged_price w ms 0 k t of None \<Rightarrow> JStr [] | Some p \<Rightarrow> p) \<and>
            row ! Suc j = (case merged_price w ms 0 k t of None \<Rightarrow> JStr [] | Some p \<Rightarrow> p))"
    if f: "find_markets w = Inr ms"
      and l: "market_loop w ms 0 ([], []) = Inr (all_data, questions)"
      and ne: "all_data \<noteq> []" and i: "i < length ms" and j: "j < length ms"
      and qi: "market_question (ms ! i) i = Inr q" and qj: "market_question (ms ! j) j = Inr q"
      and k: "hash_key q = Inr k"
  proof -
    from main_exports [OF f l ne] obtain r rows where
      e: "export_combined_csv all_data questions = (r, rows)" and
      o: "output_file (main w) = Some rows"
      by blast
    from market_loop_questions_nth [OF l] i j qi qj have
      q: "length questions = length ms" "questions ! i = q" "questions ! j = q"
      by auto
    from export_header [OF e] q i j have h: "hd rows ! Suc i = q" "hd rows ! Suc j = q"
      by simp_all
    have ci: "\<forall>row \<in> set (tl rows). \<exists>t. row ! 0 = JStr t \<and>
        row ! Suc i = (case cell all_data t k of None \<Rightarrow> JStr [] | Some p \<Rightarrow> p)"
      using export_column [OF e, of i k] q i k by simp
    have cj: "\<forall>row \<in> set (tl rows). \<exists>t. row ! 0 = JStr t \<and>
        row ! Suc j = (case cell all_data t k of None \<Rightarrow> JStr [] | Some p \<Rightarrow> p)"
      using export_column [OF e, of j k] q j k by simp
    have "\<exists>t. row ! 0 = JStr t \<and>
            row ! Suc i = (case merged_price w ms 0 k t of None \<Rightarrow> JStr [] | Some p \<Rightarrow> p) \<and>
            row ! Suc j = (case merged_price w ms 0 k t of None \<Rightarrow> JStr [] | Some p \<Rightarrow> p)"
      if "row \<in> set (tl rows)" for row
    proof -
      from ci that obtain t where
        t: "row ! 0 = JStr t"
          "row ! Suc i = (case cell all_data t k of None \<Rightarrow> JStr [] | Some p \<Rightarrow> p)"
        by blast
      from cj that obtain t' where
        t': "row ! 0 = JStr t'"
          "row ! Suc j = (case cell all_data t' k of None \<Rightarrow> JStr [] | Some p \<Rightarrow> p)"
        by blast
      from t(1) t'(1) have "t' = t" by simp
      with t t' market_loop_merged [OF l, of t k] show ?thesis by simp
    qed
    with e o h rows_of_export [OF e] show ?thesis by blast
  qed
  from a b c market_loop_merged [of w ms all_data questions ts k] show ?thesis
    by blast
qed

lemma main_same_question:
  "main (example_world (ok_response same_question_event) same_question_histories) =
     Exported [[JStr ''Timestamp (ET)'', JStr ''Q'', JStr ''Q''],
               [JStr ''2023-11-14 17:13:20 ET'', JFloat (3 / 4), JFloat (3 / 4)],
               [JStr ''2023-11-14 17:14:20 ET'', JFloat (1 / 4), JFloat (1 / 4)]]"
  by (simp add: run_defs example_defs time_defs same_question_event_def same_question_histories_def)

text \<open>
  The theorem at an event of two markets that are both called Q. The first has the
  prices 0.5 at 17:13:20 and 0.25 at 17:14:20, the second the price 0.75 at 17:13:20:
  the second market's price replaces the first market's at 17:13:20, the first
  market's price stays at 17:14:20, and both columns of the file show these prices.
\<close>

theorem same_question_one_column_witness:
  "main (example_world (ok_response same_question_event) same_question_histories) =
     Exported [[JStr ''Timestamp (ET)'', JStr ''Q'', JStr ''Q''],
               [JStr ''2023-11-14 17:13:20 ET'', JFloat (3 / 4), JFloat (3 / 4)],
               [JStr ''2023-11-14 17:14:20 ET'', JFloat (1 / 4), JFloat (1 / 4)]] \<and>
   merged_price (example_world (ok_response same_question_event) same_question_histories)
     [example_market ''Q'' (token_array ''111''), example_market ''Q'' (token_array ''222'')] 0
     (KStr ''Q'') ''2023-11-14 17:13:20 ET'' = Some (JFloat (3 / 4)) \<and>
   cell [(''2023-11-14 17:13:20 ET'', [(KStr ''Q'', JFloat (3 / 4))]),
         (''2023-11-14 17:14:20 ET'', [(KStr ''Q'', JFloat (1 / 4))])]
     ''2023-11-14 17:13:20 ET'' (KStr ''Q'') = Some (JFloat (3 / 4)) \<and>
   merged_price (example_world (ok_response same_question_event) same_question_histories)
     [example_market ''Q'' (token_array ''111''), example_market ''Q'' (token_array ''222'')] 0
     (KStr ''Q'') ''2023-11-14 17:14:20 ET'' = Some (JFloat (1 / 4)) \<and>
   merged_price (example_world (ok_response same_question_event) same_question_histories)
     [example_market ''Q'' (token_array ''111''), example_market ''Q'' (token_array ''222'')] 0
     (KStr ''Q'') ''2023-11-14 17:15:20 ET'' = None \<and>
   output_file (main (example_world (ok_response same_question_event) same_question_histories)) =
     Some [[JStr ''Timestamp (ET)'', JStr ''Q'', JStr ''Q''],
           [JStr ''2023-11-14 17:13:20 ET'', JFloat (3 / 4), JFloat (3 / 4)],
           [JStr ''2023-11-14 17:14:20 ET'', JFloat (1 / 4), JFloat (1 / 4)]] \<and>
   [JStr ''2023-11-14 17:13:20 ET'', JFloat (3 / 4), JFloat (3 / 4)] ! Suc 0 =
     (case merged_price (example_world (ok_response same_question_event) same_question_histories)
        [example_market ''Q'' (token_array ''111''), example_market ''Q'' (token_array ''222'')] 0
        (KStr ''Q'') ''2023-11-14 17:13:20 ET'' of None \<Rightarrow> JStr [] | Some p \<Rightarrow> p) \<and>
   [JStr ''2023-11-14 17:13:20 ET'', JFloat (3 / 4), JFloat (3 / 4)] ! Suc 1 =
     (case merged_price (example_world (ok_response same_question_event) same_question_histories)
        [example_market ''Q'' (token_array ''111''), example_market ''Q'' (token_array ''222'')] 0
        (KStr ''Q'') ''2023-11-14 17:13:20 ET'' of None \<Rightarrow> JStr [] | Some p \<Rightarrow> p) \<and>
   [JStr ''2023-11-14 17:14:20 ET'', JFloat (1 / 4), JFloat (1 / 4)] ! Suc 1 =
     (case merged_price (example_world (ok_response same_question_event) same_question_histories)
        [example_market ''Q'' (token_array ''111''), example_market ''Q'' (token_array ''222'')] 0
        (KStr ''Q'') ''2023-11-14 17:14:20 ET'' of None \<Rightarrow> JStr [] | Some p \<Rightarrow> p)"
proof -
  let ?w = "example_world (ok_response same_question_event) same_question_histories"
  let ?m1 = "example_market ''Q'' (token_array ''111'')"
  let ?m2 = "example_market ''Q'' (token_array ''222'')"
  let ?ms = "[?m1, ?m2]"
  let ?tbl = "[(''2023-11-14 17:13:20 ET'', [(KStr ''Q'', JFloat (3 / 4))]),
         (''2023-11-14 17:14:20 ET'', [(KStr ''Q'', JFloat (1 / 4))])]"
  let ?qs = "[JStr ''Q'', JStr ''Q'']"
  let ?a = "''2023-11-14 17:13:20 ET''"
  let ?b = "''2023-11-14 17:14:20 ET''"
  let ?c = "''2023-11-14 17:15:20 ET''"
  let ?ra = "[JStr ?a, JFloat (3 / 4), JFloat (3 / 4)]"
  let ?rb = "[JStr ?b, JFloat (1 / 4), JFloat (1 / 4)]"
  let ?rows = "[[JStr ''Timestamp (ET)'', JStr ''Q'', JStr ''Q''], ?ra, ?rb]"
  let ?shown = "\<lambda>t. case merged_price ?w ?ms 0 (KStr ''Q'') t of None \<Rightarrow> JStr [] | Some p \<Rightarrow> p"
  have f: "find_markets ?w = Inr ?ms"
    by (simp add: run_defs example_defs)
  have l: "market_loop ?w ?ms 0 ([], []) = Inr (?tbl, ?qs)"
    by (simp add: run_defs example_defs time_defs)
  have q: "market_question (?ms ! 0) 0 = Inr (JStr ''Q'')"
    "market_question (?ms ! 1) 1 = Inr (JStr ''Q'')"
    by (simp_all add: market_question_def example_market_def)
  have p1: "process_market ?w ?m1 0 =
      Inr (JStr ''Q'', JList [price_point 1700000000 (1 / 2), price_point 1700000060 (1 / 4)],
           [history_request 111])"
    by (simp add: run_defs example_defs)
  have p2: "process_market ?w ?m2 (Suc 0) =
      Inr (JStr ''Q'', JList [price_point 1700000000 (3 / 4)], [history_request 222])"
    by (simp add: run_defs example_defs)
  have k0: "point_key ?w (price_point 1700000000 x) = Inr ?a" for x
    by (simp add: point_key_def price_point_def example_world_def time_defs)
  have k1: "point_key ?w (price_point 1700000060 x) = Inr ?b" for x
    by (simp add: point_key_def price_point_def example_world_def time_defs)
  have g: "getitem_key (price_point t x) ''p'' = Inr (JFloat x)" for t x
    by (simp add: price_point_def)
  have m1a: "market_price ?w (?ms ! 0) 0 (KStr ''Q'') ?a = Some (JFloat (1 / 2))"
    by (simp add: market_price_def p1 k0 k1 g)
  have m2a: "market_price ?w (?ms ! 1) 1 (KStr ''Q'') ?a = Some (JFloat (3 / 4))"
    by (simp add: market_price_def p2 k0 g)
  have m1b: "market_price ?w (?ms ! 0) 0 (KStr ''Q'') ?b = Some (JFloat (1 / 4))"
    by (simp add: market_price_def p1 k0 k1 g)
  have m2b: "market_price ?w (?ms ! 1) 1 (KStr ''Q'') ?b = None"
    by (simp add: market_price_def p2 k0 g)
  have m1c: "market_price ?w (?ms ! 0) 0 (KStr ''Q'') ?c = None"
    by (simp add: market_price_def p1 k0 k1 g)
  have m2c: "market_price ?w (?ms ! 1) 1 (KStr ''Q'') ?c = None"
    by (simp add: market_price_def p2 k0 g)
  have la: "\<forall>l. 1 < l \<and> l < length ?ms \<longrightarrow> market_price ?w (?ms ! l) l (KStr ''Q'') ?a = None"
  proof (intro allI impI)
    fix l :: nat
    assume "1 < l \<and> l < length ?ms"
    then have "1 < l" "l < 2" by simp_all
    then have False by linarith
    then show "market_price ?w (?ms ! l) l (KStr ''Q'') ?a = None" ..
  qed
  have lb: "\<forall>l. 0 < l \<and> l < length ?ms \<longrightarrow> market_price ?w (?ms ! l) l (KStr ''Q'') ?b = None"
  proof (intro allI impI)
    fix l :: nat
    assume "0 < l \<and> l < length ?ms"
    then have "0 < l" "l < 2" by simp_all
    then have "l = 1" by linarith
    with m2b show "market_price ?w (?ms ! l) l (KStr ''Q'') ?b = None" by simp
  qed
  have lc: "\<forall>l<length ?ms. market_price ?w (?ms ! l) l (KStr ''Q'') ?c = None"
  proof (intro allI impI)
    fix l :: nat
    assume "l < length ?ms"
    then have "l < 2" by simp
    then have "l = 0 \<or> l = 1" by linarith
    with m1c m2c show "market_price ?w (?ms ! l) l (KStr ''Q'') ?c = None" by auto
  qed
  note t = same_question_one_column [where w = ?w and ms = ?ms and all_data = ?tbl
      and questions = ?qs and k = "KStr ''Q''" and q = "JStr ''Q''" and i = 0]
  note ta = t [where ts = ?a and j = 1 and price = "JFloat (3 / 4)"]
  note tb = t [where ts = ?b and j = 0 and price = "JFloat (1 / 4)"]
  note tc = t [where ts = ?c and j = 1]
  have j1: "(1::nat) < length ?ms" and j0: "(0::nat) < length ?ms"
    by simp_all
  from ta [THEN conjunct2, THEN conjunct1, THEN mp, OF conjI [OF j1 conjI [OF m2a la]]]
  have 1: "merged_price ?w ?ms 0 (KStr ''Q'') ?a = Some (JFloat (3 / 4))" .
  from ta [THEN conjunct1, THEN mp, OF l] 1
  have 2: "cell ?tbl ?a (KStr ''Q'') = Some (JFloat (3 / 4))"
    by simp
  from tb [THEN conjunct2, THEN conjunct1, THEN mp, OF conjI [OF j0 conjI [OF m1b lb]]]
  have 3: "merged_price ?w ?ms 0 (KStr ''Q'') ?b = Some (JFloat (1 / 4))" .
  from tc [THEN conjunct2, THEN conjunct2, THEN conjunct1, THEN mp, OF lc]
  have 4: "merged_price ?w ?ms 0 (KStr ''Q'') ?c = None" .
  have h: "find_markets ?w = Inr ?ms \<and> market_loop ?w ?ms 0 ([], []) = Inr (?tbl, ?qs) \<and>
    ?tbl \<noteq> [] \<and> 0 < length ?ms \<and> 1 < length ?ms \<and>
    market_question (?ms ! 0) 0 = Inr (JStr ''Q'') \<and> market_question (?ms ! 1) 1 = Inr (JStr ''Q'') \<and>
    hash_key (JStr ''Q'') = Inr (KStr ''Q'')"
    using f l q by simp
  from ta [THEN conjunct2, THEN conjunct2, THEN conjunct2, THEN mp, OF h]
  obtain r rows where
    e: "export_combined_csv ?tbl ?qs = (r, rows)" and
    o: "output_file (main ?w) = Some rows" and
    c: "\<forall>row \<in> set (tl rows). \<exists>t. row ! 0 = JStr t \<and>
         row ! Suc 0 = ?shown t \<and> row ! Suc 1 = ?shown t"
    by blast
  from o main_same_question have rows: "rows = ?rows"
    by simp
  from c rows obtain x where x: "?ra ! 0 = JStr x" "?ra ! Suc 0 = ?shown x" "?ra ! Suc 1 = ?shown x"
    by auto
  from c rows obtain y where y: "?rb ! 0 = JStr y" "?rb ! Suc 1 = ?shown y"
    by auto
  from x(1) have "x = ?a" by simp
  with x have 5: "?ra ! Suc 0 = ?shown ?a" "?ra ! Suc 1 = ?shown ?a"
    by simp_all
  from y(1) have "y = ?b" by simp
  with y have 6: "?rb ! Suc 1 = ?shown ?b"
    by simp
  from o rows have 7: "output_file (main ?w) = Some ?rows"
    by simp
  from main_same_question 1 2 3 4 7 5 6 show ?thesis
    by (intro conjI)
qed

section \<open>Digits and fixed-width fields\<close>














section \<open>The calendar\<close>















section \<open>The formatted time grows with the wall-clock time\<close>


lemma days_before_year_1: "days_before_year 1 = 0"
  by (simp add: days_before_year_def)
















section \<open>The order of the exported rows\<close>







end
